theory Spec2Isabelle
  imports Complex_Main "HOL-Library.Sublist" "HOL-Library.Product_Lexorder" "HOL-Library.Multiset"
begin

section \<open>Text: characters and the string operations of the source\<close>

text \<open>
  Python strings are sequences of code points. A \<^typ>\<open>char\<close> stands for one code point
  in the range U+0000 .. U+00FF, and the character classes below are the ones Python 3
  assigns to exactly these code points.
\<close>

definition isspace :: "char \<Rightarrow> bool" where
  \<comment> \<open>\<open>str.isspace\<close>, also the class \<open>\s\<close> of \<open>re\<close> and the separators of \<open>str.split()\<close>\<close>
  "isspace c = (of_char c \<in> {9, 10, 11, 12, 13, 28, 29, 30, 31, 32, 133, 160 :: nat})"

definition isdigit :: "char \<Rightarrow> bool" where
  \<comment> \<open>the class \<open>\d\<close> of \<open>re\<close>, also \<open>[0-9]\<close>\<close>
  "isdigit c = (48 \<le> (of_char c :: nat) \<and> (of_char c :: nat) \<le> 57)"

definition isupper_ascii :: "char \<Rightarrow> bool" where
  \<comment> \<open>the class \<open>[A-Z]\<close>\<close>
  "isupper_ascii c = (65 \<le> (of_char c :: nat) \<and> (of_char c :: nat) \<le> 90)"

definition islower_ascii :: "char \<Rightarrow> bool" where
  \<comment> \<open>the class \<open>[a-z]\<close>\<close>
  "islower_ascii c = (97 \<le> (of_char c :: nat) \<and> (of_char c :: nat) \<le> 122)"

definition isalnum :: "char \<Rightarrow> bool" where
  \<comment> \<open>\<open>str.isalnum\<close>\<close>
  "isalnum c =
     (let n = (of_char c :: nat) in
        (48 \<le> n \<and> n \<le> 57) \<or> (65 \<le> n \<and> n \<le> 90) \<or> (97 \<le> n \<and> n \<le> 122) \<or>
        n \<in> {170, 178, 179, 181, 185, 186, 188, 189, 190} \<or>
        (192 \<le> n \<and> n \<le> 214) \<or> (216 \<le> n \<and> n \<le> 246) \<or> (248 \<le> n \<and> n \<le> 255))"

definition lower_char :: "char \<Rightarrow> char" where
  \<comment> \<open>\<open>str.lower\<close> on one code point\<close>
  "lower_char c =
     (let n = (of_char c :: nat) in
        if (65 \<le> n \<and> n \<le> 90) \<or> (192 \<le> n \<and> n \<le> 222 \<and> n \<noteq> 215)
        then char_of (n + 32) else c)"

definition lower :: "string \<Rightarrow> string" where
  "lower s = map lower_char s"

fun runs_acc :: "(char \<Rightarrow> bool) \<Rightarrow> string \<Rightarrow> string \<Rightarrow> string list" where
  \<comment> \<open>the maximal runs of characters of a class, left to right; \<open>w\<close> is the run being read\<close>
  "runs_acc p w [] = (if w = [] then [] else [w])"
| "runs_acc p w (c # cs) =
     (if p c then runs_acc p (w @ [c]) cs
      else (if w = [] then runs_acc p [] cs else w # runs_acc p [] cs))"

definition split_ws :: "string \<Rightarrow> string list" where
  \<comment> \<open>\<open>str.split()\<close>: the maximal runs of non-whitespace characters\<close>
  "split_ws s = runs_acc (\<lambda>c. \<not> isspace c) [] s"

fun split_on_acc :: "(char \<Rightarrow> bool) \<Rightarrow> string \<Rightarrow> string \<Rightarrow> string list" where
  \<comment> \<open>\<open>re.split\<close> on a class of single characters; \<open>cur\<close> is the piece being read\<close>
  "split_on_acc sep cur [] = [cur]"
| "split_on_acc sep cur (c # cs) =
     (if sep c then cur # split_on_acc sep [] cs else split_on_acc sep (cur @ [c]) cs)"

fun join :: "string \<Rightarrow> string list \<Rightarrow> string" where
  \<comment> \<open>\<open>sep.join(parts)\<close>\<close>
  "join sep [] = []"
| "join sep [w] = w"
| "join sep (w # v # ws) = w @ sep @ join sep (v # ws)"

definition strip :: "string \<Rightarrow> string" where
  \<comment> \<open>\<open>str.strip()\<close>\<close>
  "strip s = rev (dropWhile isspace (rev (dropWhile isspace s)))"

definition contains :: "string \<Rightarrow> string \<Rightarrow> bool" where
  \<comment> \<open>\<open>needle in haystack\<close> on strings\<close>
  "contains needle haystack = sublist needle haystack"

definition any_in :: "string list \<Rightarrow> string \<Rightarrow> bool" where
  \<comment> \<open>\<open>any(k in text for k in keywords)\<close>\<close>
  "any_in keywords text = list_ex (\<lambda>k. contains k text) keywords"

definition count_in :: "string list \<Rightarrow> string \<Rightarrow> nat" where
  \<comment> \<open>\<open>sum(1 for k in keywords if k in text)\<close>\<close>
  "count_in keywords text = length (filter (\<lambda>k. contains k text) keywords)"

section \<open>Clause extraction: text normalisation\<close>

definition normalize_text :: "string \<Rightarrow> string" where
  \<comment> \<open>\<open>ClauseExtractor._normalize_text\<close>\<close>
  "normalize_text text =
     (let text1 = join '' '' (split_ws text);
          text2 = lower text1
      in map (\<lambda>c. if isalnum c \<or> isspace c then c else CHR '' '') text2)"

section \<open>Errors and floating-point numbers\<close>

datatype error =
    JSONDecodeError | IndexError | TypeError | ValueError | OverflowError | ZeroDivisionError
  | ValidationError

definition bind_result :: "error + 'a \<Rightarrow> ('a \<Rightarrow> error + 'b) \<Rightarrow> error + 'b" where
  \<comment> \<open>an exception of the first step ends the computation\<close>
  "bind_result r f = (case r of Inl e \<Rightarrow> Inl e | Inr x \<Rightarrow> f x)"

text \<open>
  Embedding components, similarities and relevance scores are Python floats: IEEE 754
  binary64 numbers with the two infinities and NaN. A finite float is modelled by the real
  number it denotes (the two zeros are one value; they compare equal). Every arithmetic
  operation returns the exact result rounded to the nearest float, ties to the even
  significand, and an infinity when the rounded result reaches \<open>2 ^ 1024\<close>. The
  weights and thresholds of the rule-based scores (contradiction score, ambiguity score)
  are modelled as real numbers.
\<close>

datatype pyfloat = Fin real | PInf | NInf | NaN

definition binade :: "real \<Rightarrow> int" where
  \<comment> \<open>the exponent \<open>e\<close> with \<open>2 ^ e \<le> |x| < 2 ^ (e + 1)\<close>, not below that of the
      subnormal numbers\<close>
  "binade x = max \<lfloor>log 2 \<bar>x\<bar>\<rfloor> (- 1022)"

definition ulp :: "real \<Rightarrow> real" where
  \<comment> \<open>the spacing of the floats around \<open>x\<close>: 53 significant bits\<close>
  "ulp x = 2 powi (binade x - 52)"

definition round_half_even :: "real \<Rightarrow> int" where
  "round_half_even r =
     (if r - of_int \<lfloor>r\<rfloor> < 1 / 2 then \<lfloor>r\<rfloor>
      else if 1 / 2 < r - of_int \<lfloor>r\<rfloor> then \<lfloor>r\<rfloor> + 1
      else if even \<lfloor>r\<rfloor> then \<lfloor>r\<rfloor> else \<lfloor>r\<rfloor> + 1)"

definition round_double :: "real \<Rightarrow> pyfloat" where
  \<comment> \<open>the float nearest to a real number\<close>
  "round_double x =
     (if x = 0 then Fin 0
      else (let y = of_int (round_half_even (x / ulp x)) * ulp x
            in if 2 ^ 1024 \<le> \<bar>y\<bar> then (if 0 < x then PInf else NInf) else Fin y))"

fun fsign :: "pyfloat \<Rightarrow> real" where
  "fsign (Fin x) = sgn x"
| "fsign PInf = 1"
| "fsign NInf = - 1"
| "fsign NaN = 0"

definition signed_inf :: "real \<Rightarrow> pyfloat" where
  \<comment> \<open>the result of an operation with an infinite operand, from the sign of the result;
      sign 0 is the undefined case (\<open>inf * 0\<close>)\<close>
  "signed_inf s = (if s = 0 then NaN else if 0 < s then PInf else NInf)"

fun fadd :: "pyfloat \<Rightarrow> pyfloat \<Rightarrow> pyfloat" where
  \<comment> \<open>\<open>a + b\<close>\<close>
  "fadd NaN b = NaN"
| "fadd a NaN = NaN"
| "fadd (Fin x) (Fin y) = round_double (x + y)"
| "fadd PInf NInf = NaN"
| "fadd NInf PInf = NaN"
| "fadd PInf b = PInf"
| "fadd NInf b = NInf"
| "fadd (Fin x) b = b"

fun fmul :: "pyfloat \<Rightarrow> pyfloat \<Rightarrow> pyfloat" where
  \<comment> \<open>\<open>a * b\<close>\<close>
  "fmul NaN b = NaN"
| "fmul a NaN = NaN"
| "fmul (Fin x) (Fin y) = round_double (x * y)"
| "fmul a b = signed_inf (fsign a * fsign b)"

fun fdiv :: "pyfloat \<Rightarrow> pyfloat \<Rightarrow> error + pyfloat" where
  \<comment> \<open>\<open>a / b\<close>: Python raises on a zero divisor, whatever the dividend\<close>
  "fdiv a (Fin y) =
     (if y = 0 then Inl ZeroDivisionError
      else (case a of
              Fin x \<Rightarrow> Inr (round_double (x / y))
            | NaN \<Rightarrow> Inr NaN
            | _ \<Rightarrow> Inr (signed_inf (fsign a * sgn y))))"
| "fdiv a NaN = Inr NaN"
| "fdiv NaN b = Inr NaN"
| "fdiv (Fin x) b = Inr (Fin 0)"
| "fdiv a b = Inr NaN"

fun fsqrt :: "pyfloat \<Rightarrow> error + pyfloat" where
  \<comment> \<open>\<open>math.sqrt(a)\<close>\<close>
  "fsqrt (Fin x) = (if x < 0 then Inl ValueError else Inr (round_double (sqrt x)))"
| "fsqrt PInf = Inr PInf"
| "fsqrt NInf = Inl ValueError"
| "fsqrt NaN = Inr NaN"

fun flt :: "pyfloat \<Rightarrow> pyfloat \<Rightarrow> bool" where
  \<comment> \<open>\<open>a < b\<close>: false when an operand is NaN\<close>
  "flt NaN b = False"
| "flt a NaN = False"
| "flt (Fin x) (Fin y) = (x < y)"
| "flt a PInf = (a \<noteq> PInf)"
| "flt NInf b = (b \<noteq> NInf)"
| "flt a b = False"

fun fle :: "pyfloat \<Rightarrow> pyfloat \<Rightarrow> bool" where
  \<comment> \<open>\<open>a <= b\<close>: false when an operand is NaN\<close>
  "fle NaN b = False"
| "fle a NaN = False"
| "fle (Fin x) (Fin y) = (x \<le> y)"
| "fle a PInf = True"
| "fle NInf b = True"
| "fle a b = False"

definition float_of_nat :: "nat \<Rightarrow> error + pyfloat" where
  \<comment> \<open>the conversion of a non-negative \<open>int\<close> to \<open>float\<close>, as \<open>math.sqrt\<close> and \<open>/\<close> do it\<close>
  "float_of_nat n =
     (case round_double (real n) of PInf \<Rightarrow> Inl OverflowError | f \<Rightarrow> Inr f)"

section \<open>Data model\<close>

datatype ClauseType =
    OBLIGATION | EXCLUSION | TERMINATION | LIABILITY | PAYMENT | CONFIDENTIALITY
  | INTELLECTUAL_PROPERTY | WARRANTY | INDEMNIFICATION | FORCE_MAJEURE
  | DISPUTE_RESOLUTION | AMENDMENT | GENERAL

fun clause_type_value :: "ClauseType \<Rightarrow> string" where
  \<comment> \<open>the \<open>.value\<close> of the enumeration\<close>
  "clause_type_value OBLIGATION = ''OBLIGATION''"
| "clause_type_value EXCLUSION = ''EXCLUSION''"
| "clause_type_value TERMINATION = ''TERMINATION''"
| "clause_type_value LIABILITY = ''LIABILITY''"
| "clause_type_value PAYMENT = ''PAYMENT''"
| "clause_type_value CONFIDENTIALITY = ''CONFIDENTIALITY''"
| "clause_type_value INTELLECTUAL_PROPERTY = ''INTELLECTUAL_PROPERTY''"
| "clause_type_value WARRANTY = ''WARRANTY''"
| "clause_type_value INDEMNIFICATION = ''INDEMNIFICATION''"
| "clause_type_value FORCE_MAJEURE = ''FORCE_MAJEURE''"
| "clause_type_value DISPUTE_RESOLUTION = ''DISPUTE_RESOLUTION''"
| "clause_type_value AMENDMENT = ''AMENDMENT''"
| "clause_type_value GENERAL = ''GENERAL''"

datatype RiskLevel = LOW | MEDIUM | HIGH | CRITICAL


text \<open>
  The column \<open>embedding_vector\<close> holds text or nothing. What the code does with it depends
  only on the kind of the text: nothing or the empty string (\<open>NoVector\<close>, falsy); text that
  \<open>json.loads\<close> rejects (\<open>BadJson\<close>); text that decodes (\<open>Decoded\<close>), and then on what
  \<open>list(map(float, _))\<close> does with the decoded value: it raises \<open>TypeError\<close> or
  \<open>ValueError\<close> (\<open>NotNumeric\<close>, the value being truthy), it raises \<open>OverflowError\<close>
  because it meets an integer too large for a float (\<open>TooLarge\<close>), or it returns a list
  of floats (\<open>Vector\<close>), which may hold infinities and NaN. A decoded value that is falsy
  behaves as \<open>Vector []\<close> on every path.
\<close>

datatype conversion = NotNumeric | TooLarge | Vector "pyfloat list"

datatype stored_vector = NoVector | BadJson | Decoded conversion

record Clause =
  cl_id :: int
  cl_contract_id :: int
  cl_section_number :: "string option"
  cl_text :: string
  cl_clause_type :: ClauseType
  cl_embedding_vector :: stored_vector
  cl_page_number :: "int option"

record Contract =
  ct_id :: int
  ct_name :: string
  ct_is_amendment :: bool
  ct_parent_contract_id :: "int option"

text \<open>
  A \<open>Conflict\<close> has no \<open>id\<close> and no \<open>is_resolved\<close> until it is inserted.
\<close>

record Conflict =
  cf_id :: "int option"
  cf_clause_id :: int
  cf_conflicting_clause_id :: int
  cf_conflict_type :: string
  cf_description :: "string \<times> real"
  cf_severity :: RiskLevel
  cf_confidence_score :: real
  cf_is_resolved :: "bool option"

record QuestionAnswer =
  qa_question :: string
  qa_question_embedding :: "pyfloat list option"
  qa_answer :: string
  qa_confidence_score :: pyfloat
  qa_evidence_clauses :: "(int \<times> pyfloat) list"
  qa_asked_by :: string
  qa_contract_id :: "int option"

text \<open>
  The session: the rows of the tables in the order a query without \<open>ORDER BY\<close> returns
  them, and whether the backend's \<open>LIKE\<close> ignores the case of ASCII letters (SQLite, the
  default backend, does; PostgreSQL does not).
\<close>

record Database =
  contracts :: "Contract list"
  clauses :: "Clause list"
  conflicts :: "Conflict list"
  question_answers :: "QuestionAnswer list"
  like_ignores_case :: bool

definition contract_clauses :: "Database \<Rightarrow> Contract \<Rightarrow> Clause list" where
  \<comment> \<open>the relationship \<open>contract.clauses\<close>\<close>
  "contract_clauses db c = filter (\<lambda>cl. cl_contract_id cl = ct_id c) (clauses db)"

record Config =
  similarity_threshold :: real
  conflict_threshold :: real

definition default_config :: Config where
  \<comment> \<open>\<open>Config.SIMILARITY_THRESHOLD\<close>, \<open>Config.CONFLICT_THRESHOLD\<close> with no environment override\<close>
  "default_config = \<lparr>similarity_threshold = 85 / 100, conflict_threshold = 3 / 10\<rparr>"

section \<open>Conflict detection\<close>

fun cosine_loop ::
    "pyfloat \<times> pyfloat \<times> pyfloat \<Rightarrow> (pyfloat \<times> pyfloat) list \<Rightarrow> pyfloat \<times> pyfloat \<times> pyfloat" where
  "cosine_loop (dot, n1, n2) [] = (dot, n1, n2)"
| "cosine_loop (dot, n1, n2) ((a, b) # ps) =
     cosine_loop (fadd dot (fmul a b), fadd n1 (fmul a a), fadd n2 (fmul b b)) ps"

definition cosine_similarity :: "pyfloat list \<Rightarrow> pyfloat list \<Rightarrow> error + pyfloat" where
  \<comment> \<open>\<open>_cosine_similarity\<close>, the same text in \<open>ConflictDetector\<close> and \<open>QuestionAnsweringSystem\<close>.
      The guard lets NaN norms pass (\<open>nan <= 0.0\<close> is false), and a product of two positive
      norms that rounds to zero makes the division raise.\<close>
  "cosine_similarity vec1 vec2 =
     (if vec1 = [] \<or> vec2 = [] \<or> length vec1 \<noteq> length vec2 then Inr (Fin 0)
      else (case cosine_loop (Fin 0, Fin 0, Fin 0) (zip vec1 vec2) of
              (dot, n1, n2) \<Rightarrow>
                if fle n1 (Fin 0) \<or> fle n2 (Fin 0) then Inr (Fin 0)
                else bind_result (fsqrt (fmul n1 n2)) (\<lambda>s. fdiv dot s)))"

definition converted :: "conversion \<Rightarrow> error + pyfloat list" where
  \<comment> \<open>\<open>list(map(float, value))\<close> for a decoded value\<close>
  "converted c =
     (case c of
        NotNumeric \<Rightarrow> Inl TypeError
      | TooLarge \<Rightarrow> Inl OverflowError
      | Vector v \<Rightarrow> Inr v)"

definition vectors_similarity ::
    "error + pyfloat list \<Rightarrow> error + pyfloat list \<Rightarrow> error + pyfloat" where
  \<comment> \<open>\<open>self._cosine_similarity(list(map(float, a)), list(map(float, b)))\<close>: the arguments
      are evaluated from left to right\<close>
  "vectors_similarity a b =
     bind_result a (\<lambda>vec1. bind_result b (\<lambda>vec2. cosine_similarity vec1 vec2))"

definition caught :: "error + pyfloat \<Rightarrow> error + pyfloat" where
  \<comment> \<open>\<open>try: similarity = ... except (TypeError, ValueError): similarity = 0.0\<close>; every other
      exception leaves the \<open>try\<close>\<close>
  "caught r =
     (case r of
        Inl TypeError \<Rightarrow> Inr (Fin 0)
      | Inl ValueError \<Rightarrow> Inr (Fin 0)
      | _ \<Rightarrow> r)"

definition negations :: "string list" where
  "negations = [''not'', ''no'', ''never'', ''without'', ''except'', ''excluding'']"

definition obligations :: "string list" where
  "obligations = [''shall'', ''must'', ''will'', ''required'']"

definition prohibitions :: "string list" where
  "prohibitions = [''shall not'', ''must not'', ''prohibited'', ''forbidden'']"

definition check_contradiction :: "string \<Rightarrow> string \<Rightarrow> real" where
  \<comment> \<open>\<open>ConflictDetector._check_contradiction\<close>\<close>
  "check_contradiction text1 text2 =
     (let text1_lower = lower text1;
          text2_lower = lower text2;
          has_obligation_1 = any_in obligations text1_lower;
          has_prohibition_1 = any_in prohibitions text1_lower;
          has_obligation_2 = any_in obligations text2_lower;
          has_prohibition_2 = any_in prohibitions text2_lower;
          score1 = (if (has_obligation_1 \<and> has_prohibition_2) \<or>
                       (has_prohibition_1 \<and> has_obligation_2)
                    then 0 + 7 / 10 else 0);
          negation_count_1 = int (count_in negations text1_lower);
          negation_count_2 = int (count_in negations text2_lower);
          score2 = (if \<bar>negation_count_1 - negation_count_2\<bar> \<ge> 2
                    then score1 + 3 / 10 else score1)
      in min score2 1)"

definition critical_types :: "string list" where
  "critical_types = [''LIABILITY'', ''TERMINATION'', ''INDEMNIFICATION'', ''PAYMENT'']"

definition assess_conflict_severity :: "ClauseType \<Rightarrow> real \<Rightarrow> RiskLevel" where
  \<comment> \<open>\<open>ConflictDetector._assess_conflict_severity\<close>\<close>
  "assess_conflict_severity clause_type contradiction_score =
     (if clause_type_value clause_type \<in> set critical_types then
        (if contradiction_score > 7 / 10 then CRITICAL else HIGH)
      else
        (if contradiction_score > 7 / 10 then HIGH
         else if contradiction_score > 5 / 10 then MEDIUM
         else LOW))"

definition str_opt :: "string option \<Rightarrow> string" where
  \<comment> \<open>how an f-string renders an optional string\<close>
  "str_opt s = (case s of None \<Rightarrow> ''None'' | Some t \<Rightarrow> t)"

definition generate_conflict_description ::
    "Clause \<Rightarrow> Clause \<Rightarrow> string \<Rightarrow> real \<Rightarrow> string \<times> real" where
  \<comment> \<open>\<open>ConflictDetector._generate_conflict_description\<close>: the text up to and including
      \<open>Conflict confidence: \<close>, and the score that the format \<open>.2%\<close> renders after it\<close>
  "generate_conflict_description clause1 clause2 conflict_type score =
     (let desc = conflict_type @ '': '';
          desc1 =
            (if conflict_type = ''OVERRIDE'' then
               desc @ ''Amendment clause (Section '' @ str_opt (cl_section_number clause1)
                 @ '') may override '' @ ''original clause (Section ''
                 @ str_opt (cl_section_number clause2) @ ''). ''
             else if conflict_type = ''VERSION_CONFLICT'' then
               desc @ ''Different versions contain conflicting clauses in sections ''
                 @ str_opt (cl_section_number clause1) @ '' and ''
                 @ str_opt (cl_section_number clause2) @ ''. ''
             else
               desc @ ''Contradictory clauses found in sections ''
                 @ str_opt (cl_section_number clause1) @ '' and ''
                 @ str_opt (cl_section_number clause2) @ ''. '')
      in (desc1 @ ''Conflict confidence: '', score))"

definition check_clause_conflict ::
    "Config \<Rightarrow> Clause \<Rightarrow> Clause \<Rightarrow> string \<Rightarrow> error + Conflict option" where
  \<comment> \<open>\<open>ConflictDetector._check_clause_conflict\<close>. Both texts are decoded before the first
      test, and \<open>json.loads\<close> is outside the \<open>try\<close>, so text that does not decode raises.\<close>
  "check_clause_conflict cfg clause1 clause2 conflict_type =
     (case cl_embedding_vector clause1 of
        BadJson \<Rightarrow> Inl JSONDecodeError
      | NoVector \<Rightarrow>
          (case cl_embedding_vector clause2 of BadJson \<Rightarrow> Inl JSONDecodeError | _ \<Rightarrow> Inr None)
      | Decoded emb1 \<Rightarrow>
          (case cl_embedding_vector clause2 of
             BadJson \<Rightarrow> Inl JSONDecodeError
           | NoVector \<Rightarrow> Inr None
           | Decoded emb2 \<Rightarrow>
               if emb1 = Vector [] \<or> emb2 = Vector [] then Inr None
               else
                 bind_result (caught (vectors_similarity (converted emb1) (converted emb2)))
                   (\<lambda>similarity.
                      if flt (Fin (similarity_threshold cfg)) similarity then
                        (let contradiction_score =
                               check_contradiction (cl_text clause1) (cl_text clause2)
                         in if contradiction_score > conflict_threshold cfg then
                              Inr (Some \<lparr>cf_id = None,
                                         cf_clause_id = cl_id clause1,
                                         cf_conflicting_clause_id = cl_id clause2,
                                         cf_conflict_type = conflict_type,
                                         cf_description =
                                           generate_conflict_description clause1 clause2
                                             conflict_type contradiction_score,
                                         cf_severity =
                                           assess_conflict_severity (cl_clause_type clause1)
                                             contradiction_score,
                                         cf_confidence_score = contradiction_score,
                                         cf_is_resolved = None\<rparr>)
                            else Inr None)
                      else Inr None)))"

definition fold_case :: "bool \<Rightarrow> char \<Rightarrow> char" where
  "fold_case ci c = (if ci \<and> isupper_ascii c then char_of (of_char c + 32 :: nat) else c)"

fun sql_like :: "bool \<Rightarrow> string \<Rightarrow> string \<Rightarrow> bool" where
  \<comment> \<open>\<open>value LIKE pattern\<close> with no escape character: \<open>%\<close> stands for any run of
      characters, \<open>_\<close> for any one character\<close>
  "sql_like ci [] s = (s = [])"
| "sql_like ci (p # ps) [] = (p = CHR ''%'' \<and> sql_like ci ps [])"
| "sql_like ci (p # ps) (c # cs) =
     (if p = CHR ''%'' then sql_like ci ps (c # cs) \<or> sql_like ci (p # ps) cs
      else (p = CHR ''_'' \<or> fold_case ci p = fold_case ci c) \<and> sql_like ci ps cs)"

definition name_contains :: "Database \<Rightarrow> string \<Rightarrow> string \<Rightarrow> bool" where
  \<comment> \<open>\<open>Contract.name.contains(token)\<close>, which the query renders as
      \<open>name LIKE '%' || token || '%'\<close>\<close>
  "name_contains db token name =
     sql_like (like_ignores_case db) (''%'' @ token @ ''%'') name"

definition wildcard_free :: "string \<Rightarrow> bool" where
  \<comment> \<open>the token has none of the characters that \<open>LIKE\<close> reads as wildcards\<close>
  "wildcard_free token = (CHR ''%'' \<notin> set token \<and> CHR ''_'' \<notin> set token)"

definition other_contracts :: "Database \<Rightarrow> Contract \<Rightarrow> string \<Rightarrow> Contract list" where
  "other_contracts db contract token =
     filter (\<lambda>other. ct_id other \<noteq> ct_id contract \<and> name_contains db token (ct_name other))
       (contracts db)"

definition version_pairs :: "Database \<Rightarrow> Contract \<Rightarrow> string \<Rightarrow> (Clause \<times> Clause) list" where
  \<comment> \<open>the pairs that the three nested \<open>for\<close> statements of \<open>_detect_version_conflicts\<close> hand to
      \<open>_check_clause_conflict\<close>, in that order\<close>
  "version_pairs db contract token =
     [(clause1, clause2).
        other_contract \<leftarrow> other_contracts db contract token,
        clause1 \<leftarrow> contract_clauses db contract,
        clause2 \<leftarrow> contract_clauses db other_contract,
        cl_clause_type clause1 = cl_clause_type clause2]"

fun collect_conflicts :: "Config \<Rightarrow> string \<Rightarrow> (Clause \<times> Clause) list \<Rightarrow> error + Conflict list" where
  "collect_conflicts cfg conflict_type [] = Inr []"
| "collect_conflicts cfg conflict_type ((clause1, clause2) # ps) =
     (case check_clause_conflict cfg clause1 clause2 conflict_type of
        Inl e \<Rightarrow> Inl e
      | Inr r \<Rightarrow>
          (case collect_conflicts cfg conflict_type ps of
             Inl e \<Rightarrow> Inl e
           | Inr cs \<Rightarrow> Inr (case r of None \<Rightarrow> cs | Some c \<Rightarrow> c # cs)))"

definition detect_version_conflicts :: "Config \<Rightarrow> Database \<Rightarrow> Contract \<Rightarrow> error + Conflict list" where
  \<comment> \<open>\<open>ConflictDetector._detect_version_conflicts\<close>; \<open>contract.name.split()[0]\<close> raises on a
      name with no token\<close>
  "detect_version_conflicts cfg db contract =
     (case split_ws (ct_name contract) of
        [] \<Rightarrow> Inl IndexError
      | token # _ \<Rightarrow>
          collect_conflicts cfg ''VERSION_CONFLICT'' (version_pairs db contract token))"

definition shares_first_token :: "string \<Rightarrow> string \<Rightarrow> bool" where
  \<comment> \<open>the relation in the words of the specification: the other contract's name has the first
      whitespace token of this contract's name among its own whitespace tokens\<close>
  "shares_first_token name other_name =
     (case split_ws name of [] \<Rightarrow> False | token # _ \<Rightarrow> token \<in> set (split_ws other_name))"

section \<open>Ambiguity detection\<close>

definition AMBIGUOUS_TERMS :: "string list" where
  "AMBIGUOUS_TERMS =
     [''reasonable'', ''appropriate'', ''substantial'', ''material'', ''promptly'', ''timely'',
      ''as soon as possible'', ''best efforts'', ''good faith'', ''commercially reasonable'',
      ''may'', ''might'', ''approximately'', ''about'', ''around'', ''generally'', ''typically'',
      ''adequate'', ''sufficient'', ''necessary'', ''proper'']"

definition VAGUE_QUANTIFIERS :: "string list" where
  "VAGUE_QUANTIFIERS =
     [''some'', ''several'', ''few'', ''many'', ''most'', ''numerous'', ''various'', ''certain'',
      ''multiple'']"

definition COMPLEX_CONDITIONALS :: "string list" where
  "COMPLEX_CONDITIONALS =
     [''unless'', ''except'', ''provided that'', ''subject to'', ''notwithstanding'', ''whereas'',
      ''whereby'']"

definition found_terms :: "string list \<Rightarrow> string \<Rightarrow> string list" where
  \<comment> \<open>\<open>[term for term in TERMS if term in text]\<close>\<close>
  "found_terms terms text = filter (\<lambda>term. contains term text) terms"

fun matches_at :: "(char \<Rightarrow> bool) list \<Rightarrow> string \<Rightarrow> bool" where
  \<comment> \<open>a sequence of one-character classes matches at the start of the text\<close>
  "matches_at [] s = True"
| "matches_at (p # ps) [] = False"
| "matches_at (p # ps) (c # cs) = (p c \<and> matches_at ps cs)"

fun search :: "(char \<Rightarrow> bool) list \<Rightarrow> string \<Rightarrow> bool" where
  \<comment> \<open>\<open>re.search\<close> for a sequence of one-character classes: a match at some position\<close>
  "search pat [] = matches_at pat []"
| "search pat (c # cs) = (matches_at pat (c # cs) \<or> search pat cs)"

definition has_numbers :: "string \<Rightarrow> bool" where
  \<comment> \<open>\<open>bool(re.search(r"\d+", text))\<close>\<close>
  "has_numbers text = search [isdigit] text"

definition has_dates :: "string \<Rightarrow> bool" where
  \<comment> \<open>\<open>bool(re.search(r"\d{1,2}/\d{1,2}/\d{2,4}|\d{4}-\d{2}-\d{2}", text))\<close>. A search
      succeeds for the first alternative exactly when it succeeds with one leading digit and
      two trailing digits, the middle group having one or two digits.\<close>
  "has_dates text =
     (let d = isdigit; slash = (\<lambda>c. c = CHR ''/''); dash = (\<lambda>c. c = CHR ''-'') in
        search [d, slash, d, slash, d, d] text
      \<or> search [d, slash, d, d, slash, d, d] text
      \<or> search [d, d, d, d, dash, d, d, dash, d, d] text)"

definition sentence_end :: "char \<Rightarrow> bool" where
  \<comment> \<open>the class \<open>[.;]\<close>\<close>
  "sentence_end c = (c = CHR ''.'' \<or> c = CHR '';'')"

definition avg_sentence_length :: "string \<Rightarrow> real" where
  \<comment> \<open>\<open>sum(len(s.split()) for s in sentences) / max(len(sentences), 1)\<close> with
      \<open>sentences = re.split(r"[.;]", text)\<close>\<close>
  "avg_sentence_length text =
     (let sentences = split_on_acc sentence_end [] text
      in real (sum_list (map (\<lambda>s. length (split_ws s)) sentences))
           / real (max (length sentences) 1))"

definition negation_words :: "string list" where
  "negation_words = [''not'', ''no'', ''never'', ''neither'', ''nor'']"

datatype issue =
    AmbiguousTerms "string list"
  | VagueQuantifiers "string list"
  | ComplexConditionals "string list"
  | LacksSpecifics
  | MultipleNegations
  | LongSentences real

definition analyze_clause :: "Clause \<Rightarrow> bool \<times> issue list \<times> real" where
  \<comment> \<open>\<open>AmbiguityDetector.analyze_clause\<close>; an issue stands for its message, with the values
      the message is formatted from\<close>
  "analyze_clause clause =
     (let text = lower (cl_text clause);
          found_ambiguous = found_terms AMBIGUOUS_TERMS text;
          issues1 = (if found_ambiguous \<noteq> [] then [AmbiguousTerms found_ambiguous] else []);
          score1 = (if found_ambiguous \<noteq> []
                    then 0 + real (length found_ambiguous) * (15 / 100) else 0);
          found_vague = found_terms VAGUE_QUANTIFIERS text;
          issues2 = (if found_vague \<noteq> [] then issues1 @ [VagueQuantifiers found_vague]
                     else issues1);
          score2 = (if found_vague \<noteq> []
                    then score1 + real (length found_vague) * (1 / 10) else score1);
          found_complex = found_terms COMPLEX_CONDITIONALS text;
          issues3 = (if found_complex \<noteq> [] then issues2 @ [ComplexConditionals found_complex]
                     else issues2);
          score3 = (if found_complex \<noteq> []
                    then score2 + real (length found_complex) * (12 / 100) else score2);
          lacks = (\<not> has_numbers text \<and> \<not> has_dates text \<and> length text > 100
                   \<and> clause_type_value (cl_clause_type clause)
                       \<in> set [''PAYMENT'', ''TERMINATION'', ''LIABILITY'']);
          issues4 = (if lacks then issues3 @ [LacksSpecifics] else issues3);
          score4 = (if lacks then score3 + 25 / 100 else score3);
          negation_count =
            length (filter (\<lambda>neg. contains ('' '' @ neg @ '' '') ('' '' @ text @ '' ''))
                      negation_words);
          issues5 = (if negation_count \<ge> 2 then issues4 @ [MultipleNegations] else issues4);
          score5 = (if negation_count \<ge> 2 then score4 + 2 / 10 else score4);
          avg_length = avg_sentence_length (cl_text clause);
          issues6 = (if avg_length > 40 then issues5 @ [LongSentences avg_length] else issues5);
          score6 = (if avg_length > 40 then score5 + 15 / 100 else score5);
          score = min score6 1;
          has_ambiguity = (length issues6 > 0)
      in (has_ambiguity, issues6, score))"

definition ambiguity_score :: "Clause \<Rightarrow> real" where
  \<comment> \<open>the third component of the result of \<open>analyze_clause\<close>\<close>
  "ambiguity_score clause = snd (snd (analyze_clause clause))"

definition trigger_terms :: "string list" where
  \<comment> \<open>the trigger terms of the scorer: ambiguous terms, vague quantifiers, complex
      conditionals\<close>
  "trigger_terms = AMBIGUOUS_TERMS @ VAGUE_QUANTIFIERS @ COMPLEX_CONDITIONALS"

definition extend_with :: "string \<Rightarrow> Clause \<Rightarrow> Clause" where
  \<comment> \<open>the clause with a term added to its text: appended as one more word\<close>
  "extend_with term clause = clause\<lparr>cl_text := cl_text clause @ '' '' @ term\<rparr>"

section \<open>Clause segmentation\<close>

definition OBLIGATION_KEYWORDS :: "string list" where
  "OBLIGATION_KEYWORDS =
     [''shall'', ''must'', ''will'', ''agrees to'', ''obligated'', ''required to'']"

definition EXCLUSION_KEYWORDS :: "string list" where
  "EXCLUSION_KEYWORDS =
     [''shall not'', ''except'', ''excluding'', ''does not include'', ''not applicable'']"

definition LIABILITY_KEYWORDS :: "string list" where
  "LIABILITY_KEYWORDS =
     [''liable'', ''liability'', ''damages'', ''indemnify'', ''responsible for'']"

definition TERMINATION_KEYWORDS :: "string list" where
  "TERMINATION_KEYWORDS =
     [''terminate'', ''termination'', ''cancel'', ''cancellation'', ''end this agreement'']"

definition estimate_clause_type :: "string \<Rightarrow> string" where
  \<comment> \<open>\<open>ClauseIdentifier._estimate_clause_type\<close>\<close>
  "estimate_clause_type text =
     (let text_lower = lower text in
        if any_in EXCLUSION_KEYWORDS text_lower then ''EXCLUSION''
        else if any_in OBLIGATION_KEYWORDS text_lower then ''OBLIGATION''
        else if any_in LIABILITY_KEYWORDS text_lower then ''LIABILITY''
        else if any_in TERMINATION_KEYWORDS text_lower then ''TERMINATION''
        else ''GENERAL'')"

definition sentence_start :: "char \<Rightarrow> bool" where
  \<comment> \<open>the class \<open>[A-Z(]\<close>\<close>
  "sentence_start c = (isupper_ascii c \<or> c = CHR ''('')"

function sentence_split :: "string \<Rightarrow> string \<Rightarrow> string list" where
  \<comment> \<open>\<open>re.split(r"(?<=[.;])\s+(?=[A-Z(])", text)\<close>; \<open>cur\<close> is the piece being read. A match
      starts at a whitespace character that follows \<open>.\<close> or \<open>;\<close>, and is the whole run of
      whitespace from there, provided a character of \<open>[A-Z(]\<close> follows the run. After a match
      the piece is empty and the character before it is whitespace, so the test on the last
      character of the piece is the look-behind.\<close>
  "sentence_split cur [] = [cur]"
| "sentence_split cur (c # cs) =
     (if cur \<noteq> [] \<and> sentence_end (last cur) \<and> isspace c
         \<and> (case dropWhile isspace cs of [] \<Rightarrow> False | d # _ \<Rightarrow> sentence_start d)
      then cur # sentence_split [] (dropWhile isspace cs)
      else sentence_split (cur @ [c]) cs)"
  by pat_completeness auto
termination
  by (relation "measure (\<lambda>(cur, s). length s)")
     (auto simp: less_Suc_eq_le length_dropWhile_le)

definition starts_enumerator :: "string \<Rightarrow> bool" where
  \<comment> \<open>\<open>re.match(r"^[\(\[]*[a-z0-9ivx]+[\)\]]\s*", sentence)\<close>: the three classes are
      disjoint, so each greedy run is the only one that can match\<close>
  "starts_enumerator sentence =
     (let opening = (\<lambda>c. c = CHR ''('' \<or> c = CHR ''['');
          marker = (\<lambda>c. islower_ascii c \<or> isdigit c);
          s1 = dropWhile opening sentence
      in takeWhile marker s1 \<noteq> []
         \<and> (case dropWhile marker s1 of
               [] \<Rightarrow> False
             | d # _ \<Rightarrow> d = CHR '')'' \<or> d = CHR '']''))"

record ClauseDraft =
  cd_text :: string
  cd_clause_number :: nat
  cd_section_number :: string
  cd_estimated_type :: string

fun segment_loop :: "string \<Rightarrow> string list \<Rightarrow> nat \<Rightarrow> string list \<Rightarrow> ClauseDraft list" where
  \<comment> \<open>the loop of \<open>split_into_clauses\<close> over the sentences, with \<open>current_clause\<close> and
      \<open>clause_number\<close>, and the flush after the loop\<close>
  "segment_loop section_number current_clause clause_number [] =
     (if current_clause \<noteq> [] then
        [\<lparr>cd_text = join '' '' current_clause,
          cd_clause_number = clause_number,
          cd_section_number = section_number,
          cd_estimated_type = estimate_clause_type (join '' '' current_clause)\<rparr>]
      else [])"
| "segment_loop section_number current_clause clause_number (s # ss) =
     (let sentence = strip s in
        if sentence = [] then segment_loop section_number current_clause clause_number ss
        else if starts_enumerator sentence then
          (if current_clause \<noteq> [] then
             \<lparr>cd_text = join '' '' current_clause,
              cd_clause_number = clause_number,
              cd_section_number = section_number,
              cd_estimated_type = estimate_clause_type (join '' '' current_clause)\<rparr>
               # segment_loop section_number [sentence] (clause_number + 1) ss
           else segment_loop section_number [sentence] clause_number ss)
        else segment_loop section_number (current_clause @ [sentence]) clause_number ss)"

definition split_into_clauses :: "string \<Rightarrow> (string \<rightharpoonup> string) \<Rightarrow> ClauseDraft list" where
  \<comment> \<open>\<open>ClauseIdentifier.split_into_clauses\<close>\<close>
  "split_into_clauses text section_info =
     segment_loop (case section_info ''number'' of None \<Rightarrow> [] | Some n \<Rightarrow> n) [] 1
       (sentence_split [] text)"

section \<open>Question answering: evidence retrieval\<close>

record EvidenceClause =
  ev_clause_id :: int
  ev_section_number :: "string option"
  ev_text :: string
  ev_relevance_score :: pyfloat
  ev_clause_type :: string
  ev_document_name :: string
  ev_page_number :: "int option"

record ConflictResponse =
  cr_id :: int
  cr_clause_id :: int
  cr_conflicting_clause_id :: int
  cr_conflict_type :: string
  cr_description :: "string \<times> real"
  cr_severity :: RiskLevel
  cr_confidence_score :: real
  cr_is_resolved :: bool

record AnswerResponse =
  ar_answer :: string
  ar_confidence :: pyfloat
  ar_evidence_clauses :: "EvidenceClause list"
  ar_ambiguities :: "string list"
  ar_conflicts :: "ConflictResponse list"
  ar_requires_review :: bool

text \<open>
  What the code takes from its runtime. \<open>encode\<close> is the embedding of a question:
  \<open>None\<close> when there is no embedding model or its call raises. \<open>nan_order\<close> is the order
  in which \<open>list.sort\<close> leaves a list that has a NaN among its keys: it depends on the
  steps of the sorting algorithm and is not modelled. \<open>set_order\<close> is the order in which a
  set of strings is iterated: it depends on the hash seed of the process.
\<close>

record Runtime =
  encode :: "string \<Rightarrow> pyfloat list option"
  nan_order :: "(Clause \<times> pyfloat) list \<Rightarrow> (Clause \<times> pyfloat) list"
  set_order :: "string list \<Rightarrow> string list"

definition tokenize :: "string \<Rightarrow> string list" where
  \<comment> \<open>\<open>re.findall(r"[a-z0-9]+", text.lower())\<close>\<close>
  "tokenize text = runs_acc (\<lambda>c. islower_ascii c \<or> isdigit c) [] (lower text)"

definition lexical_similarity :: "string \<Rightarrow> string \<Rightarrow> error + pyfloat" where
  \<comment> \<open>\<open>_lexical_similarity\<close>; a set of tokens is a list without repetitions. The product of
      the sizes is an exact \<open>int\<close>, converted by \<open>math.sqrt\<close>; the division converts
      \<open>inter\<close>.\<close>
  "lexical_similarity a b =
     (let ta = remdups (tokenize a);
          tb = remdups (tokenize b)
      in if ta = [] \<or> tb = [] then Inr (Fin 0)
         else (let inter = length (filter (\<lambda>t. t \<in> set tb) ta)
               in bind_result (float_of_nat (length ta * length tb)) (\<lambda>product.
                  bind_result (fsqrt product) (\<lambda>root.
                  bind_result (float_of_nat inter) (\<lambda>inter_float.
                  fdiv inter_float root)))))"

definition candidate_clauses :: "Database \<Rightarrow> int option \<Rightarrow> Clause list" where
  \<comment> \<open>the query of \<open>_retrieve_evidence\<close>; \<open>if contract_id:\<close> filters neither for \<open>None\<close> nor
      for 0\<close>
  "candidate_clauses db contract_id =
     (case contract_id of
        None \<Rightarrow> clauses db
      | Some cid \<Rightarrow>
          if cid \<noteq> 0 then filter (\<lambda>c. cl_contract_id c = cid) (clauses db) else clauses db)"

definition clause_similarity :: "pyfloat list option \<Rightarrow> string \<Rightarrow> Clause \<Rightarrow> error + pyfloat" where
  \<comment> \<open>the body of the scoring loop of \<open>_retrieve_evidence\<close>. \<open>json.loads\<close> is inside the
      \<open>try\<close> here, and \<open>JSONDecodeError\<close> is a \<open>ValueError\<close>; neither \<open>OverflowError\<close> nor
      \<open>ZeroDivisionError\<close> is among the exceptions the \<open>try\<close> absorbs.\<close>
  "clause_similarity question_embedding question clause =
     (case question_embedding of
        None \<Rightarrow> lexical_similarity question (cl_text clause)
      | Some q \<Rightarrow>
          (case cl_embedding_vector clause of
             NoVector \<Rightarrow> lexical_similarity question (cl_text clause)
           | BadJson \<Rightarrow> Inr (Fin 0)
           | Decoded clause_vec \<Rightarrow> caught (vectors_similarity (Inr q) (converted clause_vec))))"

fun score_clauses ::
    "pyfloat list option \<Rightarrow> string \<Rightarrow> Clause list \<Rightarrow> error + (Clause \<times> pyfloat) list" where
  \<comment> \<open>the scoring loop: the first exception ends it\<close>
  "score_clauses question_embedding question [] = Inr []"
| "score_clauses question_embedding question (clause # rest) =
     bind_result (clause_similarity question_embedding question clause) (\<lambda>similarity.
     bind_result (score_clauses question_embedding question rest) (\<lambda>scores.
     Inr ((clause, similarity) # scores)))"

fun desc_key :: "pyfloat \<Rightarrow> int \<times> real" where
  \<comment> \<open>a key whose ascending (lexicographic) order is the descending order of the floats
      that are not NaN\<close>
  "desc_key PInf = (- 1, 0)"
| "desc_key (Fin x) = (0, - x)"
| "desc_key NInf = (1, 0)"
| "desc_key NaN = (0, 0)"

definition has_nan_score :: "(Clause \<times> pyfloat) list \<Rightarrow> bool" where
  "has_nan_score scores = list_ex (\<lambda>x. snd x = NaN) scores"

definition sort_by_score :: "Runtime \<Rightarrow> (Clause \<times> pyfloat) list \<Rightarrow> (Clause \<times> pyfloat) list" where
  \<comment> \<open>\<open>clause_scores.sort(key=lambda x: x[1], reverse=True)\<close>: a stable sort into
      descending order of the key, when the keys can be compared\<close>
  "sort_by_score rt scores =
     (if has_nan_score scores then nan_order rt scores
      else sort_key (\<lambda>x. desc_key (snd x)) scores)"

definition slice_to :: "int \<Rightarrow> 'a list \<Rightarrow> 'a list" where
  \<comment> \<open>\<open>xs[:k]\<close>; a negative \<open>k\<close> counts from the end\<close>
  "slice_to k xs = (if 0 \<le> k then take (nat k) xs else take (nat (int (length xs) + k)) xs)"

definition document_name :: "Database \<Rightarrow> Clause \<Rightarrow> string" where
  \<comment> \<open>\<open>contract.name if contract else "Unknown"\<close> for the first contract with the clause's
      \<open>contract_id\<close>\<close>
  "document_name db clause =
     (case find (\<lambda>k. ct_id k = cl_contract_id clause) (contracts db) of
        None \<Rightarrow> ''Unknown''
      | Some contract \<Rightarrow> ct_name contract)"

definition make_evidence :: "Database \<Rightarrow> Clause \<times> pyfloat \<Rightarrow> EvidenceClause" where
  "make_evidence db cs =
     (case cs of (clause, score) \<Rightarrow>
        \<lparr>ev_clause_id = cl_id clause,
         ev_section_number = cl_section_number clause,
         ev_text = cl_text clause,
         ev_relevance_score = score,
         ev_clause_type = clause_type_value (cl_clause_type clause),
         ev_document_name = document_name db clause,
         ev_page_number = cl_page_number clause\<rparr>)"

definition retrieve_evidence ::
    "Runtime \<Rightarrow> Database \<Rightarrow> string \<Rightarrow> int option \<Rightarrow> int \<Rightarrow> error + EvidenceClause list" where
  \<comment> \<open>\<open>QuestionAnsweringSystem._retrieve_evidence\<close>\<close>
  "retrieve_evidence rt db question contract_id top_k =
     (let question_embedding = encode rt question;
          cls = candidate_clauses db contract_id
      in if cls = [] then Inr []
         else bind_result (score_clauses question_embedding question cls) (\<lambda>clause_scores.
                (let top_clauses = slice_to top_k (sort_by_score rt clause_scores)
                 in Inr (map (make_evidence db) top_clauses))))"

fun digit_char :: "nat \<Rightarrow> char" where
  "digit_char n = char_of (48 + n)"

fun str_nat :: "nat \<Rightarrow> string" where
  \<comment> \<open>how an f-string renders a natural number\<close>
  "str_nat n = (if n < 10 then [digit_char n] else str_nat (n div 10) @ [digit_char (n mod 10)])"

definition generate_answer :: "Runtime \<Rightarrow> string \<Rightarrow> EvidenceClause list \<Rightarrow> string \<times> pyfloat" where
  \<comment> \<open>\<open>_generate_answer\<close>; the documents of the supporting clauses are a set, joined in the
      order in which the runtime iterates it\<close>
  "generate_answer rt question evidence_clauses =
     (case evidence_clauses of
        [] \<Rightarrow> (''No relevant information found.'', Fin 0)
      | most_relevant # others \<Rightarrow>
          (let answer1 = ''Based on '' @ ev_document_name most_relevant;
               answer2 = (case ev_section_number most_relevant of
                            None \<Rightarrow> answer1
                          | Some n \<Rightarrow> if n \<noteq> [] then answer1 @ '', Section '' @ n else answer1);
               answer3 = answer2 @ [CHR '':'', CHR 0x0A, CHR 0x0A];
               answer4 = answer3 @ [CHR 0x22] @ ev_text most_relevant @ [CHR 0x22];
               answer5 =
                 (if length evidence_clauses > 1 then
                    answer4 @ [CHR 0x0A, CHR 0x0A] @ ''This is further supported by ''
                      @ str_nat (length evidence_clauses - 1) @ '' related clause(s)'' @ '' in ''
                      @ join '', '' (set_order rt (remdups (map ev_document_name others)))
                      @ ''.''
                  else answer4)
           in (answer5, ev_relevance_score most_relevant)))"

definition qa_ambiguous_terms :: "string list" where
  "qa_ambiguous_terms =
     [''reasonable'', ''appropriate'', ''substantial'', ''material'', ''promptly'', ''timely'',
      ''best efforts'', ''good faith'']"

definition detect_ambiguities :: "EvidenceClause list \<Rightarrow> string list" where
  \<comment> \<open>\<open>_detect_ambiguities\<close>\<close>
  "detect_ambiguities evidence_clauses =
     concat (map (\<lambda>evidence.
       (let text_lower = lower (ev_text evidence);
            found = found_terms qa_ambiguous_terms text_lower
        in if found \<noteq> [] then
             [''Section ''
                @ (case ev_section_number evidence of
                     None \<Rightarrow> ''Unknown''
                   | Some n \<Rightarrow> if n \<noteq> [] then n else ''Unknown'')
                @ '' contains ambiguous terms: '' @ join '', '' found]
           else [])) evidence_clauses)"

definition conflict_response :: "Conflict \<Rightarrow> error + ConflictResponse" where
  \<comment> \<open>\<open>ConflictResponse(id=conflict.id, ...)\<close>: the model validates that \<open>id\<close> is an
      integer and \<open>is_resolved\<close> a boolean\<close>
  "conflict_response conflict =
     (case (cf_id conflict, cf_is_resolved conflict) of
        (Some i, Some resolved) \<Rightarrow>
          Inr \<lparr>cr_id = i,
               cr_clause_id = cf_clause_id conflict,
               cr_conflicting_clause_id = cf_conflicting_clause_id conflict,
               cr_conflict_type = cf_conflict_type conflict,
               cr_description = cf_description conflict,
               cr_severity = cf_severity conflict,
               cr_confidence_score = cf_confidence_score conflict,
               cr_is_resolved = resolved\<rparr>
      | _ \<Rightarrow> Inl ValidationError)"

fun conflict_responses :: "Conflict list \<Rightarrow> error + ConflictResponse list" where
  "conflict_responses [] = Inr []"
| "conflict_responses (conflict # rest) =
     bind_result (conflict_response conflict) (\<lambda>r.
     bind_result (conflict_responses rest) (\<lambda>rs. Inr (r # rs)))"

definition check_evidence_conflicts ::
    "Database \<Rightarrow> EvidenceClause list \<Rightarrow> error + ConflictResponse list" where
  \<comment> \<open>\<open>_check_evidence_conflicts\<close>\<close>
  "check_evidence_conflicts db evidence_clauses =
     (let clause_ids = map ev_clause_id evidence_clauses;
          db_conflicts =
            filter (\<lambda>conflict. cf_clause_id conflict \<in> set clause_ids
                               \<and> cf_conflicting_clause_id conflict \<in> set clause_ids)
              (conflicts db)
      in conflict_responses db_conflicts)"

definition high_risk_types :: "string list" where
  "high_risk_types = [''LIABILITY'', ''TERMINATION'', ''INDEMNIFICATION'', ''PAYMENT'']"

definition needs_review ::
    "EvidenceClause list \<Rightarrow> ConflictResponse list \<Rightarrow> string list \<Rightarrow> bool" where
  \<comment> \<open>\<open>_needs_review\<close>\<close>
  "needs_review evidence_clauses confl ambiguities =
     (let high_risk_count =
            length (filter (\<lambda>e. ev_clause_type e \<in> set high_risk_types) evidence_clauses)
      in if high_risk_count \<ge> 2 then True
         else if length confl > 0 then True
         else if length ambiguities \<ge> 2 then True
         else (case evidence_clauses of
                 [] \<Rightarrow> False
               | e # _ \<Rightarrow> if flt (ev_relevance_score e) (Fin (6 / 10)) then True else False))"

definition save_qa ::
    "Runtime \<Rightarrow> Database \<Rightarrow> string \<Rightarrow> string \<Rightarrow> pyfloat \<Rightarrow> EvidenceClause list \<Rightarrow> string
       \<Rightarrow> int option \<Rightarrow> Database" where
  \<comment> \<open>\<open>_save_qa\<close>: one more row in the table of questions\<close>
  "save_qa rt db question answer confidence evidence_clauses asked_by contract_id =
     db\<lparr>question_answers := question_answers db @
          [\<lparr>qa_question = question,
            qa_question_embedding = encode rt question,
            qa_answer = answer,
            qa_confidence_score = confidence,
            qa_evidence_clauses =
              map (\<lambda>e. (ev_clause_id e, ev_relevance_score e)) evidence_clauses,
            qa_asked_by = asked_by,
            qa_contract_id = contract_id\<rparr>]\<rparr>"

definition no_answer :: AnswerResponse where
  \<comment> \<open>the response of \<open>answer_question\<close> when there is no evidence\<close>
  "no_answer =
     \<lparr>ar_answer = ''I couldn't find relevant clauses to answer this question.'',
      ar_confidence = Fin 0,
      ar_evidence_clauses = [],
      ar_ambiguities = [],
      ar_conflicts = [],
      ar_requires_review = False\<rparr>"

definition answer_question ::
    "Runtime \<Rightarrow> Database \<Rightarrow> string \<Rightarrow> int option \<Rightarrow> int \<Rightarrow> string
       \<Rightarrow> error + AnswerResponse \<times> Database" where
  \<comment> \<open>\<open>QuestionAnsweringSystem.answer_question\<close>: the response and the session after the
      call, or the exception that leaves it\<close>
  "answer_question rt db question contract_id top_k asked_by =
     bind_result (retrieve_evidence rt db question contract_id top_k) (\<lambda>evidence_clauses.
       if evidence_clauses = [] then Inr (no_answer, db)
       else
         (let (answer, confidence) = generate_answer rt question evidence_clauses;
              ambiguities = detect_ambiguities evidence_clauses
          in bind_result (check_evidence_conflicts db evidence_clauses) (\<lambda>confl.
               (let requires_review = needs_review evidence_clauses confl ambiguities;
                    db' = save_qa rt db question answer confidence evidence_clauses asked_by
                            contract_id
                in Inr (\<lparr>ar_answer = answer,
                          ar_confidence = confidence,
                          ar_evidence_clauses = evidence_clauses,
                          ar_ambiguities = ambiguities,
                          ar_conflicts = confl,
                          ar_requires_review = requires_review\<rparr>, db')))))"



section \<open>Concrete inputs\<close>

definition example_clause ::
    "int \<Rightarrow> int \<Rightarrow> string \<Rightarrow> ClauseType \<Rightarrow> stored_vector \<Rightarrow> Clause" where
  "example_clause i contract_id text clause_type vec =
     \<lparr>cl_id = i, cl_contract_id = contract_id, cl_section_number = Some ''1'',
      cl_text = text, cl_clause_type = clause_type, cl_embedding_vector = vec,
      cl_page_number = Some 1\<rparr>"

definition example_contract :: "int \<Rightarrow> string \<Rightarrow> Contract" where
  "example_contract i name =
     \<lparr>ct_id = i, ct_name = name, ct_is_amendment = False, ct_parent_contract_id = None\<rparr>"

definition stored :: "real list \<Rightarrow> stored_vector" where
  \<comment> \<open>the text of a list of finite floats\<close>
  "stored xs = Decoded (Vector (map Fin xs))"

definition deliver_text :: string where
  "deliver_text = ''The party shall deliver the goods within 10 days.''"

definition not_deliver_text :: string where
  "not_deliver_text = ''The party shall not deliver the goods within 10 days.''"

definition enumerated_text :: string where
  "enumerated_text =
     ''(a) Party shall pay within 30 days. (b) Party shall not be liable for delays.''"

definition plain_runtime :: "(string \<Rightarrow> pyfloat list option) \<Rightarrow> Runtime" where
  \<comment> \<open>a runtime with the given embedding of questions\<close>
  "plain_runtime enc = \<lparr>encode = enc, nan_order = (\<lambda>scores. scores), set_order = (\<lambda>names. names)\<rparr>"

definition no_encoder :: "string \<Rightarrow> pyfloat list option" where
  \<comment> \<open>no embedding model is loaded\<close>
  "no_encoder question = None"

definition unit_encoder :: "string \<Rightarrow> pyfloat list option" where
  \<comment> \<open>an embedding model that maps every question to the vector \<open>[1.0]\<close>\<close>
  "unit_encoder question = Some [Fin 1]"

definition empty_db :: Database where
  "empty_db =
     \<lparr>contracts = [], clauses = [], conflicts = [], question_answers = [],
      like_ignores_case = True\<rparr>"

definition opposite_db :: Database where
  \<comment> \<open>one clause whose stored embedding is \<open>[-1.0]\<close>\<close>
  "opposite_db =
     \<lparr>contracts = [example_contract 1 ''Acme Lease''],
      clauses = [example_clause 1 1 ''The fee is due.'' PAYMENT (stored [- 1])],
      conflicts = [], question_answers = [], like_ignores_case = True\<rparr>"

definition versions_db :: Database where
  \<comment> \<open>two contracts; the name of the second has \<open>Acme\<close> inside its first token only\<close>
  "versions_db =
     \<lparr>contracts = [example_contract 1 ''Acme Lease'', example_contract 2 ''Acmeology Report''],
      clauses = [example_clause 10 1 deliver_text PAYMENT (stored [1]),
                 example_clause 20 2 not_deliver_text PAYMENT (stored [1])],
      conflicts = [], question_answers = [], like_ignores_case = True\<rparr>"


definition ranked_db :: Database where
  \<comment> \<open>four clauses whose stored embeddings are \<open>[0.0]\<close>, \<open>[-1.0]\<close>, \<open>[1.0]\<close> and \<open>[2.0]\<close>\<close>
  "ranked_db =
     \<lparr>contracts = [example_contract 1 ''Acme Lease''],
      clauses = [example_clause 1 1 ''The fee is due.'' PAYMENT (stored [0]),
                 example_clause 2 1 ''The fee is due.'' PAYMENT (stored [- 1]),
                 example_clause 3 1 ''The fee is due.'' PAYMENT (stored [1]),
                 example_clause 4 1 ''The fee is due.'' PAYMENT (stored [2])],
      conflicts = [], question_answers = [], like_ignores_case = True\<rparr>"


definition tiny_encoder :: "string \<Rightarrow> pyfloat list option" where
  \<comment> \<open>an embedding model that maps every question to the vector \<open>[2 ^ -300]\<close>\<close>
  "tiny_encoder question = Some [Fin (2 powi (- 300))]"

definition underflow_db :: Database where
  \<comment> \<open>one clause whose stored embedding is \<open>[2 ^ -300]\<close>\<close>
  "underflow_db =
     \<lparr>contracts = [example_contract 1 ''Acme Lease''],
      clauses = [example_clause 1 1 ''The fee is due.'' PAYMENT (stored [2 powi (- 300)])],
      conflicts = [], question_answers = [], like_ignores_case = True\<rparr>"

definition nan_db :: Database where
  \<comment> \<open>two clauses; the stored embedding of the second is the text \<open>[NaN]\<close>, which
      \<open>json.loads\<close> accepts\<close>
  "nan_db =
     \<lparr>contracts = [example_contract 1 ''Acme Lease''],
      clauses = [example_clause 1 1 ''The fee is due.'' PAYMENT (stored [1]),
                 example_clause 2 1 ''The fee is late.'' PAYMENT (Decoded (Vector [NaN]))],
      conflicts = [], question_answers = [], like_ignores_case = True\<rparr>"

section \<open>Properties\<close>

subsection \<open>Rounding to the nearest float\<close>

lemma ulp_pos: "0 < ulp x"
  by (simp add: ulp_def)



lemma round_half_even_of_int: "round_half_even (of_int k) = k"
  by (simp add: round_half_even_def)



lemma binade_upper:
  assumes "0 < x" "x \<le> of_int m" "m < 2 ^ 53"
  shows "binade x \<le> 52"
proof -
  have "x < 2 powr 53" using assms by (simp add: powr_numeral)
  then have "log 2 x < 53" using assms(1) by (simp add: log_less_iff)
  then have "\<lfloor>log 2 x\<rfloor> < 53" by (simp add: floor_less_iff)
  then show ?thesis using assms(1) by (simp add: binade_def)
qed


lemma ulp_scale:
  assumes "binade x \<le> 52"
  shows "of_int (m * 2 ^ nat (52 - binade x)) * ulp x = of_int m"
proof -
  have "(2::real) ^ nat (52 - binade x) = 2 powi (52 - binade x)"
    using assms by (simp add: power_int_def)
  moreover have "(2::real) powi (52 - binade x) * 2 powi (binade x - 52) = 1"
    by (simp flip: power_int_add)
  ultimately show ?thesis
    by (simp add: ulp_def mult.assoc)
qed




lemma round_double_of_int:
  assumes "\<bar>n\<bar> < 2 ^ 53"
  shows "round_double (of_int n) = Fin (of_int n)"
proof (cases "n = 0")
  case True
  then show ?thesis by (simp add: round_double_def)
next
  case False
  let ?x = "of_int n :: real"
  have ax: "0 < \<bar>?x\<bar>" "\<bar>?x\<bar> \<le> of_int \<bar>n\<bar>" using False by simp_all
  have "binade \<bar>?x\<bar> \<le> 52" using ax assms by (rule binade_upper)
  then have b: "binade ?x \<le> 52" by (simp add: binade_def)
  have "?x / ulp ?x = of_int (n * 2 ^ nat (52 - binade ?x))"
    using ulp_scale [OF b, of n] ulp_pos [of ?x] by (simp add: field_simps)
  then have "of_int (round_half_even (?x / ulp ?x)) * ulp ?x = ?x"
    using ulp_scale [OF b, of n] by (simp only: round_half_even_of_int)
  moreover have "\<bar>?x\<bar> < 2 ^ 1024"
  proof -
    have "\<bar>?x\<bar> < 2 ^ 53" using assms
      by (metis of_int_abs of_int_less_iff of_int_numeral of_int_power)
    also have "\<dots> < (2::real) ^ 1024" by simp
    finally show ?thesis .
  qed
  ultimately show ?thesis
    using False by (simp add: round_double_def Let_def)
qed

lemma round_double_numeral:
  "numeral k < (2::int) ^ 53 \<Longrightarrow> round_double (numeral k) = Fin (numeral k)"
  using round_double_of_int [of "numeral k"] by simp

lemma round_double_neg_numeral:
  "numeral k < (2::int) ^ 53 \<Longrightarrow> round_double (- numeral k) = Fin (- numeral k)"
  using round_double_of_int [of "- numeral k"] by simp

lemma round_double_one: "round_double 1 = Fin 1"
  using round_double_of_int [of 1] by simp

lemma round_double_minus_one: "round_double (- 1) = Fin (- 1)"
  using round_double_of_int [of "- 1"] by simp

lemma round_double_zero: "round_double 0 = Fin 0"
  by (simp add: round_double_def)

lemmas round_double_exact =
  round_double_zero round_double_one round_double_minus_one round_double_numeral
  round_double_neg_numeral


lemma power_int_powr: "(2::real) powi k = 2 powr of_int k"
  by (simp add: powr_real_of_int')

lemma log2_power_int: "log 2 (2 powi k) = of_int k"
proof -
  have "log 2 (2 powr of_int k) = of_int k" by (rule log_powr_cancel) simp_all
  then show ?thesis by (simp only: power_int_powr)
qed

lemma log2_less:
  assumes "0 < x" and "x < 2 powi k"
  shows "\<lfloor>log 2 x\<rfloor> < k"
proof -
  have "x < 2 powr of_int k" using assms(2) by (simp only: power_int_powr)
  then have "log 2 x < of_int k" using assms(1) by (simp add: log_less_iff)
  then show ?thesis by (simp add: floor_less_iff)
qed

lemma power_int_split: "(2::real) powi 52 * 2 powi (k - 52) = 2 powi k"
proof -
  have "(2::real) powi (52 + (k - 52)) = 2 powi 52 * 2 powi (k - 52)"
    by (rule power_int_add) simp
  moreover have "52 + (k - 52) = k" by simp
  ultimately show ?thesis by (simp only:)
qed

lemma round_double_power_int:
  assumes "- 1022 \<le> k" and "k \<le> 1023"
  shows "round_double (2 powi k) = Fin (2 powi k)"
proof -
  let ?x = "2 powi k :: real"
  have pos: "0 < ?x" by simp
  have "\<bar>?x\<bar> = ?x" by simp
  then have "binade ?x = max \<lfloor>log 2 ?x\<rfloor> (- 1022)" by (simp only: binade_def)
  also have "\<dots> = k" using assms(1) by (simp only: log2_power_int floor_of_int)
  finally have b: "binade ?x = k" .
  have u: "ulp ?x = 2 powi (k - 52)" by (simp only: ulp_def b)
  have upos: "0 < (2::real) powi (k - 52)" by simp
  have "?x / ulp ?x = 2 powi 52"
    unfolding u using upos power_int_split [of k]
    by (metis nonzero_mult_div_cancel_right less_numeral_extra(3) order_less_irrefl)
  also have "\<dots> = of_int (2 ^ 52)" by simp
  finally have q: "?x / ulp ?x = of_int (2 ^ 52)" .
  have rh: "round_half_even (?x / ulp ?x) = 2 ^ 52" by (simp only: q round_half_even_of_int)
  have e: "(of_int (2 ^ 52) :: real) = 2 powi 52" by simp
  have y: "of_int (round_half_even (?x / ulp ?x)) * ulp ?x = ?x"
  proof -
    have "of_int (round_half_even (?x / ulp ?x)) * ulp ?x = of_int (2 ^ 52) * ulp ?x"
      by (simp only: rh)
    also have "\<dots> = 2 powi 52 * 2 powi (k - 52)" by (simp only: u e)
    also have "\<dots> = ?x" by (rule power_int_split)
    finally show ?thesis .
  qed
  have "?x < 2 powi 1024" using assms(2) by (intro power_int_strict_increasing) simp_all
  also have "\<dots> = (2::real) ^ 1024" by simp
  finally have "\<bar>?x\<bar> < 2 ^ 1024" by simp
  then have "\<not> 2 ^ 1024 \<le> \<bar>?x\<bar>" by simp
  moreover have "?x \<noteq> 0" by simp
  ultimately show ?thesis
    unfolding round_double_def Let_def y by (simp only: if_False)
qed

lemma round_half_even_small: "0 \<le> r \<Longrightarrow> r < 1 / 2 \<Longrightarrow> round_half_even r = 0"
proof -
  assume a: "0 \<le> r" "r < 1 / 2"
  then have f: "\<lfloor>r\<rfloor> = 0" by (simp add: floor_eq_iff)
  show ?thesis using a by (simp add: round_half_even_def f)
qed

lemma round_double_below_half_ulp:
  assumes "0 < x" and "x < 2 powi (k - 1)" and "binade x - 52 = k"
  shows "round_double x = Fin 0"
proof -
  have u: "ulp x = 2 powi k" by (simp only: ulp_def assms(3))
  have "(2::real) powi (k - 1) = 2 powi k / 2" by (simp add: power_int_diff)
  then have "x < ulp x / 2" using assms(2) by (simp only: u)
  then have r: "x / ulp x < 1 / 2" using ulp_pos [of x] by (simp add: divide_less_eq)
  have r0: "0 \<le> x / ulp x" using assms(1) ulp_pos [of x] by simp
  have "round_half_even (x / ulp x) = 0" using r0 r by (rule round_half_even_small)
  then show ?thesis
    using assms(1) by (simp add: round_double_def Let_def)
qed

lemma round_double_underflow:
  assumes "0 < x" and "x < 2 powi (- 1075)"
  shows "round_double x = Fin 0"
proof -
  have "\<lfloor>log 2 x\<rfloor> < - 1075" using assms by (rule log2_less)
  then have b: "binade x - 52 = - 1074" using assms(1) by (simp add: binade_def)
  have "(- 1074 - 1 :: int) = - 1075" by simp
  then have "x < 2 powi (- 1074 - 1)" using assms(2) by (simp only:)
  with assms(1) show ?thesis using b by (rule round_double_below_half_ulp)
qed

subsection \<open>Text normalisation\<close>

text \<open>
  Claim C1. \<open>_normalize_text\<close> is claimed to be idempotent, with an output that has only
  lowercase alphanumeric characters and single spaces. The repository's own test expects
  \<open>"this is a test"\<close> for the input \<open>"  This   is  a   TEST!  "\<close>. The code collapses
  whitespace first and replaces special characters by spaces afterwards: on the test's input
  it returns the text with a trailing space, a second application removes that space, and on
  \<open>"a,,b"\<close> the output has two spaces in a row.
\<close>

theorem normalize_text_test_input:
  "normalize_text ''  This   is  a   TEST!  '' = ''this is a test ''
   \<and> normalize_text (normalize_text ''  This   is  a   TEST!  '') = ''this is a test''
   \<and> normalize_text ''a,,b'' = ''a  b''"
  by code_simp

subsection \<open>The contradiction score\<close>

lemma check_contradiction_range:
  "check_contradiction text1 text2 \<in> {0, 3 / 10, 7 / 10, 1}"
  unfolding check_contradiction_def Let_def by auto

lemma check_clause_conflict_SomeD:
  "check_clause_conflict cfg clause1 clause2 conflict_type = Inr (Some conflict) \<Longrightarrow>
     cf_confidence_score conflict = check_contradiction (cl_text clause1) (cl_text clause2)
     \<and> conflict_threshold cfg < check_contradiction (cl_text clause1) (cl_text clause2)"
  unfolding check_clause_conflict_def Let_def bind_result_def
  by (auto split: if_splits stored_vector.splits sum.splits)

lemma deliver_score: "check_contradiction deliver_text not_deliver_text = 1"
  by code_simp

lemma cosine_similarity_unit: "cosine_similarity [Fin 1] [Fin 1] = Inr (Fin 1)"
  by (simp add: cosine_similarity_def bind_result_def round_double_exact)

lemma cosine_similarity_opposite: "cosine_similarity [Fin 1] [Fin (- 1)] = Inr (Fin (- 1))"
  by (simp add: cosine_similarity_def bind_result_def round_double_exact)

lemma cosine_similarity_two: "cosine_similarity [Fin 1] [Fin 2] = Inr (Fin 1)"
  by (simp add: cosine_similarity_def bind_result_def round_double_exact)

lemma cosine_similarity_zero: "cosine_similarity [Fin 1] [Fin 0] = Inr (Fin 0)"
  by (simp add: cosine_similarity_def bind_result_def round_double_exact)

lemma cosine_similarity_underflow:
  assumes "- 511 \<le> k" and "k \<le> - 269"
  shows "cosine_similarity [Fin (2 powi k)] [Fin (2 powi k)] = Inl ZeroDivisionError"
proof -
  let ?u = "2 powi (k + k) :: real"
  have tt: "(2::real) powi k * 2 powi k = ?u"
    by (rule power_int_add [symmetric]) simp
  have r1: "round_double ?u = Fin ?u"
    using assms by (intro round_double_power_int) linarith+
  have uu: "?u * ?u = 2 powi (k + k + (k + k))"
    by (rule power_int_add [symmetric]) simp
  have "(2::real) powi (k + k + (k + k)) < 2 powi (- 1075)"
    using assms(2) by (intro power_int_strict_increasing) linarith+
  then have r2: "round_double (2 powi (k + k + (k + k))) = Fin 0"
    by (intro round_double_underflow) simp_all
  have upos: "\<not> ?u \<le> 0" by (simp add: not_le)
  have loop: "cosine_loop (Fin 0, Fin 0, Fin 0) [(Fin (2 powi k), Fin (2 powi k))]
                = (Fin ?u, Fin ?u, Fin ?u)"
    by (simp only: cosine_loop.simps fmul.simps fadd.simps tt r1 add_0)
  show ?thesis
    unfolding cosine_similarity_def
    by (simp only: zip_Cons_Cons zip_Nil loop prod.case fle.simps fmul.simps fsqrt.simps uu r2
        upos bind_result_def) (simp add: round_double_zero)
qed

lemma cosine_similarity_tiny:
  "cosine_similarity [Fin (2 powi (- 300))] [Fin (2 powi (- 300))] = Inl ZeroDivisionError"
  by (rule cosine_similarity_underflow) simp_all

text \<open>
  Claim C9. The contradiction score is symmetric in its two texts.
\<close>

theorem check_contradiction_symmetric:
  "check_contradiction text1 text2 = check_contradiction text2 text1"
  unfolding check_contradiction_def Let_def by (auto simp: abs_minus_commute)

text \<open>
  Claim C3. For the texts \<open>"The party shall deliver the goods within 10 days."\<close> and
  \<open>"The party shall not deliver the goods within 10 days."\<close>, carried by two clauses whose
  embedding vectors have a cosine similarity above the similarity threshold, the
  contradiction score is at least 0.7 (it is 1.0) and a Conflict is produced; its severity
  is CRITICAL when the first clause has one of the critical types and HIGH for every other
  type. The score 1.0 has to exceed the conflict threshold, as it does for the default 0.3.
\<close>

theorem shall_vs_shall_not_conflict:
  assumes "cl_text clause1 = deliver_text"
    and "cl_text clause2 = not_deliver_text"
    and "cl_embedding_vector clause1 = Decoded (Vector v1)"
    and "cl_embedding_vector clause2 = Decoded (Vector v2)"
    and "v1 \<noteq> []" and "v2 \<noteq> []"
    and "cosine_similarity v1 v2 = Inr similarity"
    and "flt (Fin (similarity_threshold cfg)) similarity"
    and "conflict_threshold cfg < 1"
  shows "7 / 10 \<le> check_contradiction (cl_text clause1) (cl_text clause2)
     \<and> (\<exists>conflict.
           check_clause_conflict cfg clause1 clause2 conflict_type = Inr (Some conflict)
           \<and> cf_clause_id conflict = cl_id clause1
           \<and> cf_conflicting_clause_id conflict = cl_id clause2
           \<and> cf_confidence_score conflict = 1
           \<and> cf_severity conflict =
               (if cl_clause_type clause1 \<in> {LIABILITY, TERMINATION, INDEMNIFICATION, PAYMENT}
                then CRITICAL else HIGH))"
proof -
  have score: "check_contradiction (cl_text clause1) (cl_text clause2) = 1"
    using assms(1,2) deliver_score by simp
  have sev: "assess_conflict_severity (cl_clause_type clause1) 1 =
      (if cl_clause_type clause1 \<in> {LIABILITY, TERMINATION, INDEMNIFICATION, PAYMENT}
       then CRITICAL else HIGH)"
    by (cases "cl_clause_type clause1") (simp_all add: assess_conflict_severity_def critical_types_def)
  have sim: "caught (vectors_similarity (converted (Vector v1)) (converted (Vector v2)))
               = Inr similarity"
    using assms(7) by (simp add: caught_def vectors_similarity_def converted_def bind_result_def)
  show ?thesis
    using assms(3-6,8,9) score sev sim
    by (simp add: check_clause_conflict_def bind_result_def Let_def)
qed

theorem shall_vs_shall_not_conflict_witness:
  "7 / 10 \<le> check_contradiction deliver_text not_deliver_text
   \<and> (\<exists>conflict.
     check_clause_conflict default_config
       (example_clause 1 1 deliver_text PAYMENT (stored [1]))
       (example_clause 2 1 not_deliver_text PAYMENT (stored [1])) ''CONTRADICTION''
       = Inr (Some conflict)
     \<and> cf_clause_id conflict = 1 \<and> cf_conflicting_clause_id conflict = 2
     \<and> cf_confidence_score conflict = 1 \<and> cf_severity conflict = CRITICAL)"
proof -
  let ?c1 = "example_clause 1 1 deliver_text PAYMENT (stored [1])"
  let ?c2 = "example_clause 2 1 not_deliver_text PAYMENT (stored [1])"
  have "7 / 10 \<le> check_contradiction (cl_text ?c1) (cl_text ?c2)
     \<and> (\<exists>conflict.
           check_clause_conflict default_config ?c1 ?c2 ''CONTRADICTION'' = Inr (Some conflict)
           \<and> cf_clause_id conflict = cl_id ?c1
           \<and> cf_conflicting_clause_id conflict = cl_id ?c2
           \<and> cf_confidence_score conflict = 1
           \<and> cf_severity conflict =
               (if cl_clause_type ?c1 \<in> {LIABILITY, TERMINATION, INDEMNIFICATION, PAYMENT}
                then CRITICAL else HIGH))"
    by (rule shall_vs_shall_not_conflict
          [where ?v1.0 = "[Fin 1]" and ?v2.0 = "[Fin 1]" and similarity = "Fin 1"])
       (simp_all add: example_clause_def stored_def default_config_def cosine_similarity_unit)
  then show ?thesis
    by (simp add: example_clause_def)
qed

text \<open>
  Claim C10. The contradiction score is one of 0.0, 0.3, 0.7 and 1.0; hence, with the
  default conflict threshold 0.3, the confidence score of a recorded Conflict is 0.7 or 1.0.
\<close>

theorem contradiction_score_values:
  "check_contradiction text1 text2 \<in> {0, 3 / 10, 7 / 10, 1}
   \<and> (check_clause_conflict default_config clause1 clause2 conflict_type = Inr (Some conflict)
        \<longrightarrow> cf_confidence_score conflict \<in> {7 / 10, 1})"
proof (intro conjI impI)
  show "check_contradiction text1 text2 \<in> {0, 3 / 10, 7 / 10, 1}"
    by (rule check_contradiction_range)
next
  assume a: "check_clause_conflict default_config clause1 clause2 conflict_type = Inr (Some conflict)"
  from check_clause_conflict_SomeD[OF a]
  have eq: "cf_confidence_score conflict = check_contradiction (cl_text clause1) (cl_text clause2)"
    and gt: "3 / 10 < check_contradiction (cl_text clause1) (cl_text clause2)"
    by (simp_all add: default_config_def)
  from check_contradiction_range[of "cl_text clause1" "cl_text clause2"] gt
  have "check_contradiction (cl_text clause1) (cl_text clause2) \<in> {7 / 10, 1}"
    by auto
  with eq show "cf_confidence_score conflict \<in> {7 / 10, 1}" by simp
qed

lemma example_conflict_value:
  "check_clause_conflict default_config
       (example_clause 1 1 deliver_text PAYMENT (stored [1]))
       (example_clause 2 1 not_deliver_text PAYMENT (stored [1])) ''VERSION_CONFLICT''
     = Inr (Some \<lparr>cf_id = None, cf_clause_id = 1, cf_conflicting_clause_id = 2,
           cf_conflict_type = ''VERSION_CONFLICT'',
           cf_description = (''VERSION_CONFLICT: Different versions contain conflicting clauses in sections 1 and 1. Conflict confidence: '', 1),
           cf_severity = CRITICAL, cf_confidence_score = 1, cf_is_resolved = None\<rparr>)"
  by (simp add: check_clause_conflict_def bind_result_def caught_def vectors_similarity_def
      converted_def Let_def example_clause_def stored_def
      default_config_def cosine_similarity_unit deliver_score assess_conflict_severity_def
      critical_types_def generate_conflict_description_def str_opt_def)

theorem contradiction_score_values_witness:
  "check_contradiction deliver_text not_deliver_text \<in> {0, 3 / 10, 7 / 10, 1}
   \<and> check_clause_conflict default_config
         (example_clause 1 1 deliver_text PAYMENT (stored [1]))
         (example_clause 2 1 not_deliver_text PAYMENT (stored [1])) ''VERSION_CONFLICT''
       = Inr (Some
           \<lparr>cf_id = None, cf_clause_id = 1, cf_conflicting_clause_id = 2,
             cf_conflict_type = ''VERSION_CONFLICT'',
             cf_description = (''VERSION_CONFLICT: Different versions contain conflicting clauses in sections 1 and 1. Conflict confidence: '', 1),
             cf_severity = CRITICAL, cf_confidence_score = 1, cf_is_resolved = None\<rparr>)
   \<and> cf_confidence_score
        \<lparr>cf_id = None, cf_clause_id = 1, cf_conflicting_clause_id = 2,
           cf_conflict_type = ''VERSION_CONFLICT'',
           cf_description = (''VERSION_CONFLICT: Different versions contain conflicting clauses in sections 1 and 1. Conflict confidence: '', 1),
           cf_severity = CRITICAL, cf_confidence_score = 1, cf_is_resolved = None\<rparr> \<in> {7 / 10, 1}"
  using contradiction_score_values
    [of deliver_text not_deliver_text
        "example_clause 1 1 deliver_text PAYMENT (stored [1])"
        "example_clause 2 1 not_deliver_text PAYMENT (stored [1])" "''VERSION_CONFLICT''"]
    example_conflict_value
  by simp

subsection \<open>Clause segmentation\<close>

text \<open>
  Claim C7. Segmenting \<open>"(a) Party shall pay within 30 days. (b) Party shall not be liable
  for delays."\<close> yields exactly two clauses, the first estimated as OBLIGATION and the
  second as EXCLUSION, although the second also has an obligation keyword and a liability
  keyword: the exclusion keywords are tried first.
\<close>

theorem split_into_clauses_enumerated:
  "map (\<lambda>d. (cd_text d, cd_clause_number d, cd_estimated_type d))
       (split_into_clauses enumerated_text section_info)
     = [(''(a) Party shall pay within 30 days.'', 1, ''OBLIGATION''),
        (''(b) Party shall not be liable for delays.'', 2, ''EXCLUSION'')]
   \<and> any_in OBLIGATION_KEYWORDS (lower ''(b) Party shall not be liable for delays.'')
   \<and> any_in LIABILITY_KEYWORDS (lower ''(b) Party shall not be liable for delays.'')"
  by code_simp

subsection \<open>Question answering\<close>

lemma retrieve_evidence_no_candidates:
  "candidate_clauses db contract_id = [] \<Longrightarrow>
     retrieve_evidence rt db question contract_id top_k = Inr []"
  by (simp add: retrieve_evidence_def)

text \<open>
  Claim C8. When the candidate clause set is empty, or retrieval returns no evidence,
  \<open>answer_question\<close> returns the fixed answer text with confidence 0.0, empty lists of
  evidence, ambiguities and conflicts, and \<open>requires_review = False\<close>; nothing else is
  done: the session is left as it was (no question is saved).
\<close>

theorem answer_question_no_evidence:
  assumes "candidate_clauses db contract_id = []
           \<or> retrieve_evidence rt db question contract_id top_k = Inr []"
  shows "answer_question rt db question contract_id top_k asked_by = Inr (no_answer, db)
     \<and> ar_answer no_answer = ''I couldn't find relevant clauses to answer this question.''
     \<and> ar_confidence no_answer = Fin 0
     \<and> ar_evidence_clauses no_answer = []
     \<and> ar_ambiguities no_answer = []
     \<and> ar_conflicts no_answer = []
     \<and> ar_requires_review no_answer = False"
proof -
  from assms have "retrieve_evidence rt db question contract_id top_k = Inr []"
    using retrieve_evidence_no_candidates by blast
  then show ?thesis
    by (simp add: answer_question_def no_answer_def bind_result_def)
qed

lemma clause_similarity_stored:
  "clause_similarity (Some [Fin 1]) question (example_clause i c text ty (stored [0])) = Inr (Fin 0)"
  "clause_similarity (Some [Fin 1]) question (example_clause i c text ty (stored [- 1])) = Inr (Fin (- 1))"
  "clause_similarity (Some [Fin 1]) question (example_clause i c text ty (stored [1])) = Inr (Fin 1)"
  "clause_similarity (Some [Fin 1]) question (example_clause i c text ty (stored [2])) = Inr (Fin 1)"
  "clause_similarity (Some [Fin 1]) question (example_clause i c text ty (Decoded TooLarge))
     = Inl OverflowError"
  by (simp_all add: clause_similarity_def example_clause_def stored_def caught_def
      vectors_similarity_def converted_def bind_result_def cosine_similarity_opposite
      cosine_similarity_unit cosine_similarity_two cosine_similarity_zero)

lemma clause_similarity_underflow:
  assumes "- 511 \<le> k" and "k \<le> - 269"
  shows "clause_similarity (Some [Fin (2 powi k)]) question
           (example_clause i c text ty (stored [2 powi k])) = Inl ZeroDivisionError"
  using cosine_similarity_underflow [OF assms]
  by (simp add: clause_similarity_def example_clause_def stored_def caught_def
      vectors_similarity_def converted_def bind_result_def)

lemma retrieve_opposite_none:
  "retrieve_evidence (plain_runtime unit_encoder) opposite_db ''What is the fee?'' None 0 = Inr []"
  by (simp add: retrieve_evidence_def candidate_clauses_def opposite_db_def plain_runtime_def
      unit_encoder_def clause_similarity_stored bind_result_def slice_to_def Let_def)

theorem answer_question_no_evidence_witness:
  "answer_question (plain_runtime no_encoder) empty_db ''What is the fee?'' None 5 ''anonymous''
     = Inr (no_answer, empty_db)
   \<and> answer_question (plain_runtime unit_encoder) opposite_db ''What is the fee?'' None 0
        ''anonymous''
     = Inr (no_answer, opposite_db)"
proof -
  have a: "candidate_clauses empty_db None = []"
    by (simp add: candidate_clauses_def empty_db_def)
  show ?thesis
    using answer_question_no_evidence
        [of empty_db None "plain_runtime no_encoder" "''What is the fee?''" 5 "''anonymous''"]
      answer_question_no_evidence
        [of opposite_db None "plain_runtime unit_encoder" "''What is the fee?''" 0 "''anonymous''"]
      a retrieve_opposite_none
    by simp
qed

subsection \<open>Evidence retrieval: how many, in which order\<close>

lemma ev_relevance_score_make_evidence:
  "ev_relevance_score (make_evidence db p) = snd p"
  by (cases p) (simp add: make_evidence_def)

lemma desc_key_le:
  "a \<noteq> NaN \<Longrightarrow> b \<noteq> NaN \<Longrightarrow> (desc_key a \<le> desc_key b) = fle b a"
  by (cases a; cases b) simp_all

lemma desc_key_eq:
  "a \<noteq> NaN \<Longrightarrow> b \<noteq> NaN \<Longrightarrow> (desc_key a = desc_key b) = (a = b)"
  by (cases a; cases b) simp_all

lemma length_score_clauses:
  "score_clauses qe question cls = Inr scores \<Longrightarrow> length scores = length cls"
  by (induction cls arbitrary: scores) (auto simp: bind_result_def split: sum.splits)

lemma sorted_scores_descending:
  assumes "\<not> has_nan_score scores"
  shows "sorted_wrt (\<lambda>a b. fle (snd b) (snd a)) (sort_key (\<lambda>x. desc_key (snd x)) scores)"
proof -
  let ?ys = "sort_key (\<lambda>x. desc_key (snd x)) scores"
  have s: "sorted_wrt (\<lambda>a b. desc_key (snd a) \<le> desc_key (snd b)) ?ys"
    using sorted_sort_key [of "\<lambda>x. desc_key (snd x)" scores] by (simp add: sorted_map)
  have n: "\<forall>p\<in>set ?ys. snd p \<noteq> NaN"
    using assms by (auto simp: has_nan_score_def list_ex_iff)
  show ?thesis
    by (rule sorted_wrt_mono_rel [OF _ s]) (simp add: n desc_key_le)
qed

lemma sorted_scores_stable:
  assumes "\<not> has_nan_score scores"
  shows "filter (\<lambda>p. snd p = v) (sort_key (\<lambda>x. desc_key (snd x)) scores)
           = filter (\<lambda>p. snd p = v) scores"
proof -
  let ?f = "\<lambda>x. desc_key (snd x)"
  have "filter (\<lambda>p. snd p = v) (sort_key ?f scores) = sort_key ?f (filter (\<lambda>p. snd p = v) scores)"
    by (rule filter_sort)
  also have "\<dots> = filter (\<lambda>p. snd p = v) scores"
  proof (rule sort_key_id_if_sorted)
    have "map ?f (filter (\<lambda>p. snd p = v) scores)
            = replicate (length (filter (\<lambda>p. snd p = v) scores)) (desc_key v)"
      by (induction scores) auto
    then show "sorted (map ?f (filter (\<lambda>p. snd p = v) scores))"
      by (simp add: sorted_replicate)
  qed
  finally show ?thesis .
qed

lemma filter_take_prefix: "prefix (filter P (take n xs)) (filter P xs)"
proof -
  have "prefix (take n xs) xs" by (rule take_is_prefix)
  then show ?thesis by (rule filter_mono_prefix)
qed

lemma retrieve_evidence_top_k:
  assumes "0 \<le> top_k"
    and "score_clauses (encode rt question) question (candidate_clauses db contract_id)
           = Inr scores"
    and "\<not> has_nan_score scores"
  shows "\<exists>result rest.
       retrieve_evidence rt db question contract_id top_k = Inr result
     \<and> length result = min (nat top_k) (length (candidate_clauses db contract_id))
     \<and> sorted_wrt (\<lambda>a b. fle (ev_relevance_score b) (ev_relevance_score a)) result
     \<and> (\<forall>v. prefix (filter (\<lambda>e. ev_relevance_score e = v) result)
                     (map (make_evidence db) (filter (\<lambda>p. snd p = v) scores)))
     \<and> mset (result @ rest) = mset (map (make_evidence db) scores)
     \<and> (\<forall>e\<in>set result. \<forall>r\<in>set rest. fle (ev_relevance_score r) (ev_relevance_score e))"
proof -
  let ?cls = "candidate_clauses db contract_id"
  let ?ys = "sort_key (\<lambda>x. desc_key (snd x)) scores"
  let ?k = "nat top_k"
  let ?result = "map (make_evidence db) (take ?k ?ys)"
  let ?rest = "map (make_evidence db) (drop ?k ?ys)"
  have len: "length scores = length ?cls"
    using assms(2) by (rule length_score_clauses)
  have res: "retrieve_evidence rt db question contract_id top_k = Inr ?result"
  proof (cases "?cls = []")
    case True
    with len show ?thesis by (simp add: retrieve_evidence_def)
  next
    case False
    then show ?thesis
      using assms
      by (simp add: retrieve_evidence_def bind_result_def sort_by_score_def slice_to_def Let_def)
  qed
  have l: "length ?result = min ?k (length ?cls)"
    using len by simp
  have sorted_ys: "sorted_wrt (\<lambda>a b. fle (snd b) (snd a)) ?ys"
    using assms(3) by (rule sorted_scores_descending)
  have "sorted_wrt (\<lambda>a b. fle (snd b) (snd a)) (take ?k ?ys)"
    using sorted_ys by (rule sorted_wrt_take)
  then have s: "sorted_wrt (\<lambda>a b. fle (ev_relevance_score b) (ev_relevance_score a)) ?result"
    by (simp add: sorted_wrt_map ev_relevance_score_make_evidence)
  have t: "prefix (filter (\<lambda>e. ev_relevance_score e = v) ?result)
                  (map (make_evidence db) (filter (\<lambda>p. snd p = v) scores))" for v
  proof -
    have "filter (\<lambda>e. ev_relevance_score e = v) ?result
            = map (make_evidence db) (filter (\<lambda>p. snd p = v) (take ?k ?ys))"
      by (simp add: filter_map o_def ev_relevance_score_make_evidence)
    moreover have "prefix (filter (\<lambda>p. snd p = v) (take ?k ?ys))
                          (filter (\<lambda>p. snd p = v) scores)"
      using filter_take_prefix [of "\<lambda>p. snd p = v" ?k ?ys]
      by (simp add: sorted_scores_stable [OF assms(3)])
    ultimately show ?thesis
      by (simp add: map_mono_prefix)
  qed
  have "mset (take ?k ?ys @ drop ?k ?ys) = mset scores"
    by simp
  then have m: "mset (?result @ ?rest) = mset (map (make_evidence db) scores)"
    by (metis map_append mset_map)
  have "sorted_wrt (\<lambda>a b. fle (snd b) (snd a)) (take ?k ?ys @ drop ?k ?ys)"
    using sorted_ys by simp
  then have "\<forall>x\<in>set (take ?k ?ys). \<forall>y\<in>set (drop ?k ?ys). fle (snd y) (snd x)"
    unfolding sorted_wrt_append by blast
  then have u: "\<forall>e\<in>set ?result. \<forall>r\<in>set ?rest. fle (ev_relevance_score r) (ev_relevance_score e)"
    by (auto simp: ev_relevance_score_make_evidence)
  show ?thesis
    using res l s t m u by blast
qed

lemma retrieve_ranked:
  "map (\<lambda>e. (ev_clause_id e, ev_relevance_score e))
       (projr (retrieve_evidence (plain_runtime unit_encoder) ranked_db ''What is the fee?'' None 3))
     = [(3, Fin 1), (4, Fin 1), (1, Fin 0)]
   \<and> isl (retrieve_evidence (plain_runtime unit_encoder) ranked_db ''What is the fee?'' None 3) = False"
  by (simp add: retrieve_evidence_def candidate_clauses_def ranked_db_def plain_runtime_def
      unit_encoder_def clause_similarity_stored bind_result_def sort_by_score_def
      has_nan_score_def slice_to_def make_evidence_def Let_def)
     (simp add: example_clause_def)


text \<open>
  The division of the cosine raises as well, when the product of two positive norms is too
  small for a float: for a question and a clause both embedded as \<open>[2 ^ -300]\<close> the norms
  are \<open>2 ^ -600\<close>, their product rounds to zero, and \<open>ZeroDivisionError\<close> leaves the call.
\<close>

lemma retrieve_evidence_underflow:
  "retrieve_evidence (plain_runtime tiny_encoder) underflow_db ''What is the fee?'' None 5
     = Inl ZeroDivisionError"
  using clause_similarity_underflow [of "- 300" "''What is the fee?''" 1 1 "''The fee is due.''"
      PAYMENT]
  by (simp add: retrieve_evidence_def candidate_clauses_def underflow_db_def plain_runtime_def
      tiny_encoder_def bind_result_def Let_def)

text \<open>
  A stored vector with a NaN gives a NaN score, which the \<open>try\<close> has no reason to absorb.
  The list returned is then the one the sort of the runtime leaves, and a list of two or
  more scores with a NaN among them is in non-increasing order in no arrangement.
\<close>

lemma clause_similarity_nan:
  "clause_similarity (Some [Fin 1]) question
     (example_clause i c text ty (Decoded (Vector [NaN]))) = Inr NaN"
  by (simp add: clause_similarity_def example_clause_def caught_def vectors_similarity_def
      converted_def bind_result_def cosine_similarity_def round_double_exact)

lemma retrieve_evidence_nan:
  assumes "encode rt ''What is the fee?'' = Some [Fin 1]"
  shows "retrieve_evidence rt nan_db ''What is the fee?'' None 5
     = Inr (map (make_evidence nan_db)
         (slice_to 5 (nan_order rt
            [(example_clause 1 1 ''The fee is due.'' PAYMENT (stored [1]), Fin 1),
             (example_clause 2 1 ''The fee is late.'' PAYMENT (Decoded (Vector [NaN])), NaN)])))"
  using assms
  by (simp add: retrieve_evidence_def candidate_clauses_def nan_db_def clause_similarity_stored
      clause_similarity_nan bind_result_def sort_by_score_def has_nan_score_def Let_def)

lemma nan_never_sorted:
  assumes "NaN \<in> set scores" and "2 \<le> length scores"
  shows "\<not> sorted_wrt (\<lambda>a b. fle b a) scores"
proof
  assume s: "sorted_wrt (\<lambda>a b. fle b a) scores"
  from assms(1) obtain i where i: "i < length scores" "scores ! i = NaN"
    by (auto simp: in_set_conv_nth)
  from assms(2) i(1) obtain j where j: "j < length scores" "j \<noteq> i"
    by (cases "i = 0") (auto intro: that [of 1] that [of 0])
  show False
  proof (cases "i < j")
    case True
    with s j(1) have "fle (scores ! j) (scores ! i)" by (simp add: sorted_wrt_iff_nth_less)
    with i(2) show False by (cases "scores ! j") simp_all
  next
    case False
    with j(2) have "j < i" by simp
    with s i(1) have "fle (scores ! i) (scores ! j)" by (simp add: sorted_wrt_iff_nth_less)
    with i(2) show False by simp
  qed
qed

subsection \<open>Relevance scores\<close>























subsection \<open>The scan for version conflicts\<close>

lemma sql_like_percent: "sql_like ci ''%'' s"
  by (induction s) simp_all

lemma sql_like_prefix:
  "CHR ''%'' \<notin> set ps \<Longrightarrow> CHR ''_'' \<notin> set ps \<Longrightarrow>
     sql_like ci (ps @ ''%'') s = prefix (map (fold_case ci) ps) (map (fold_case ci) s)"
proof (induction ps arbitrary: s)
  case Nil
  then show ?case by (simp add: sql_like_percent)
next
  case (Cons p ps)
  then show ?case by (cases s) auto
qed

lemma sql_like_anywhere:
  "sql_like ci (CHR ''%'' # q) s = (\<exists>pre t. s = pre @ t \<and> sql_like ci q t)"
proof (induction s)
  case Nil
  then show ?case by simp
next
  case (Cons c cs)
  show ?case
  proof
    assume "sql_like ci (CHR ''%'' # q) (c # cs)"
    then consider "sql_like ci q (c # cs)" | "sql_like ci (CHR ''%'' # q) cs"
      by auto
    then show "\<exists>pre t. c # cs = pre @ t \<and> sql_like ci q t"
    proof cases
      case 1
      then have "c # cs = [] @ (c # cs) \<and> sql_like ci q (c # cs)" by simp
      then show ?thesis by blast
    next
      case 2
      with Cons.IH obtain pre t where "cs = pre @ t" "sql_like ci q t" by blast
      then have "c # cs = (c # pre) @ t \<and> sql_like ci q t" by simp
      then show ?thesis by blast
    qed
  next
    assume "\<exists>pre t. c # cs = pre @ t \<and> sql_like ci q t"
    then obtain pre t where pt: "c # cs = pre @ t" and l: "sql_like ci q t" by blast
    show "sql_like ci (CHR ''%'' # q) (c # cs)"
    proof (cases pre)
      case Nil
      with pt have "t = c # cs" by simp
      with l have "sql_like ci q (c # cs)" by simp
      then show ?thesis by simp
    next
      case (Cons a pre')
      with pt have "cs = pre' @ t" by simp
      with l Cons.IH have "sql_like ci (CHR ''%'' # q) cs" by blast
      then show ?thesis by simp
    qed
  qed
qed

lemma name_contains_substring:
  assumes "wildcard_free token"
  shows "name_contains db token name
           = sublist (map (fold_case (like_ignores_case db)) token)
                     (map (fold_case (like_ignores_case db)) name)"
proof -
  let ?f = "fold_case (like_ignores_case db)"
  have "name_contains db token name
          = (\<exists>pre t. name = pre @ t \<and> prefix (map ?f token) (map ?f t))"
    using assms
    by (simp add: name_contains_def sql_like_anywhere sql_like_prefix wildcard_free_def)
  also have "\<dots> = sublist (map ?f token) (map ?f name)"
  proof
    assume "\<exists>pre t. name = pre @ t \<and> prefix (map ?f token) (map ?f t)"
    then obtain pre t zs where "name = pre @ t" "map ?f t = map ?f token @ zs"
      by (auto simp: prefix_def)
    then have "map ?f name = map ?f pre @ map ?f token @ zs" by simp
    then show "sublist (map ?f token) (map ?f name)"
      unfolding sublist_def by blast
  next
    assume "sublist (map ?f token) (map ?f name)"
    then obtain ps ss where e: "map ?f name = ps @ map ?f token @ ss"
      unfolding sublist_def by blast
    let ?pre = "take (length ps) name"
    let ?t = "drop (length ps) name"
    have "map ?f ?t = drop (length ps) (map ?f name)" by (simp add: drop_map)
    also have "\<dots> = map ?f token @ ss" by (simp add: e)
    finally have "prefix (map ?f token) (map ?f ?t)" by simp
    moreover have "name = ?pre @ ?t" by simp
    ultimately show "\<exists>pre t. name = pre @ t \<and> prefix (map ?f token) (map ?f t)"
      by blast
  qed
  finally show ?thesis .
qed

lemma set_version_pairs:
  "set (version_pairs db contract token)
     = {(clause1, clause2).
          clause1 \<in> set (contract_clauses db contract)
          \<and> cl_clause_type clause1 = cl_clause_type clause2
          \<and> (\<exists>other\<in>set (contracts db).
                ct_id other \<noteq> ct_id contract
                \<and> name_contains db token (ct_name other)
                \<and> clause2 \<in> set (contract_clauses db other))}"
  by (auto simp: version_pairs_def other_contracts_def)


text \<open>
  Claim C4, as amended. The VERSION_CONFLICT scan hands to the clause check exactly the
  pairs of a clause of the contract and a clause of the same type of another contract
  (different id) whose name matches the pattern \<open>%token%\<close> for the first whitespace token
  of the contract's name: a name that has the token anywhere as a substring (compared up
  to the case of ASCII letters when the backend's \<open>LIKE\<close> ignores case), when the token has
  neither \<open>%\<close> nor \<open>_\<close>. A name with no token makes the scan raise \<open>IndexError\<close>. As stated,
  with names that share the token, the claim fails: \<open>Acmeology Report\<close> does not have the
  token \<open>Acme\<close> of \<open>Acme Lease\<close>, and the scan records a conflict between their clauses.
\<close>

theorem version_pairs_exact:
  "(split_ws (ct_name contract) = [] \<longrightarrow>
      detect_version_conflicts cfg db contract = Inl IndexError)
   \<and> (split_ws (ct_name contract) = token # rest \<longrightarrow>
        detect_version_conflicts cfg db contract
          = collect_conflicts cfg ''VERSION_CONFLICT'' (version_pairs db contract token)
        \<and> set (version_pairs db contract token)
            = {(clause1, clause2).
                 clause1 \<in> set (contract_clauses db contract)
                 \<and> cl_clause_type clause1 = cl_clause_type clause2
                 \<and> (\<exists>other\<in>set (contracts db).
                       ct_id other \<noteq> ct_id contract
                       \<and> name_contains db token (ct_name other)
                       \<and> clause2 \<in> set (contract_clauses db other))}
        \<and> (wildcard_free token \<longrightarrow>
              (\<forall>name. name_contains db token name
                 = sublist (map (fold_case (like_ignores_case db)) token)
                           (map (fold_case (like_ignores_case db)) name))))"
  using set_version_pairs [of db contract token] name_contains_substring [of token db]
  by (simp add: detect_version_conflicts_def)

lemma split_ws_acme: "split_ws ''Acme Lease'' = [''Acme'', ''Lease'']"
  by code_simp

lemma split_ws_acmeology: "split_ws ''Acmeology Report'' = [''Acmeology'', ''Report'']"
  by code_simp

lemma name_contains_acme: "name_contains versions_db ''Acme'' ''Acmeology Report''"
  by code_simp

lemma version_pairs_acme:
  "version_pairs versions_db (example_contract 1 ''Acme Lease'') ''Acme''
     = [(example_clause 10 1 deliver_text PAYMENT (stored [1]),
         example_clause 20 2 not_deliver_text PAYMENT (stored [1]))]"
  using name_contains_acme
  by (simp add: version_pairs_def other_contracts_def contract_clauses_def versions_db_def
      example_contract_def example_clause_def)

lemma detect_acme:
  "detect_version_conflicts default_config versions_db (example_contract 1 ''Acme Lease'')
     = Inr [\<lparr>cf_id = None, cf_clause_id = 10, cf_conflicting_clause_id = 20,
             cf_conflict_type = ''VERSION_CONFLICT'',
             cf_description =
               (''VERSION_CONFLICT: Different versions contain conflicting clauses in sections 1 and 1. Conflict confidence: '', 1),
             cf_severity = CRITICAL, cf_confidence_score = 1, cf_is_resolved = None\<rparr>]"
proof -
  have n: "ct_name (example_contract 1 ''Acme Lease'') = ''Acme Lease''"
    by (simp add: example_contract_def)
  have c: "check_clause_conflict default_config
             (example_clause 10 1 deliver_text PAYMENT (stored [1]))
             (example_clause 20 2 not_deliver_text PAYMENT (stored [1])) ''VERSION_CONFLICT''
           = Inr (Some \<lparr>cf_id = None, cf_clause_id = 10, cf_conflicting_clause_id = 20,
                cf_conflict_type = ''VERSION_CONFLICT'',
                cf_description =
                  (''VERSION_CONFLICT: Different versions contain conflicting clauses in sections 1 and 1. Conflict confidence: '', 1),
                cf_severity = CRITICAL, cf_confidence_score = 1, cf_is_resolved = None\<rparr>)"
    by (simp add: check_clause_conflict_def Let_def example_clause_def stored_def bind_result_def
        caught_def vectors_similarity_def converted_def
        default_config_def cosine_similarity_unit deliver_score assess_conflict_severity_def
        critical_types_def generate_conflict_description_def str_opt_def)
  show ?thesis
    unfolding detect_version_conflicts_def n split_ws_acme
    by (simp add: version_pairs_acme c)
qed

theorem version_scan_substring_match:
  "\<not> shares_first_token ''Acme Lease'' ''Acmeology Report''
   \<and> hd (split_ws ''Acme Lease'') \<noteq> hd (split_ws ''Acmeology Report'')
   \<and> version_pairs versions_db (example_contract 1 ''Acme Lease'') ''Acme''
       = [(example_clause 10 1 deliver_text PAYMENT (stored [1]),
           example_clause 20 2 not_deliver_text PAYMENT (stored [1]))]
   \<and> detect_version_conflicts default_config versions_db (example_contract 1 ''Acme Lease'')
       = Inr [\<lparr>cf_id = None, cf_clause_id = 10, cf_conflicting_clause_id = 20,
               cf_conflict_type = ''VERSION_CONFLICT'',
               cf_description =
                 (''VERSION_CONFLICT: Different versions contain conflicting clauses in sections 1 and 1. Conflict confidence: '', 1),
               cf_severity = CRITICAL, cf_confidence_score = 1, cf_is_resolved = None\<rparr>]"
  by (simp add: shares_first_token_def split_ws_acme split_ws_acmeology version_pairs_acme
      detect_acme)

theorem version_pairs_exact_witness:
  "detect_version_conflicts default_config versions_db (example_contract 1 ''Acme Lease'')
     = collect_conflicts default_config ''VERSION_CONFLICT''
         (version_pairs versions_db (example_contract 1 ''Acme Lease'') ''Acme'')
   \<and> set (version_pairs versions_db (example_contract 1 ''Acme Lease'') ''Acme'')
       = {(clause1, clause2).
            clause1 \<in> set (contract_clauses versions_db (example_contract 1 ''Acme Lease''))
            \<and> cl_clause_type clause1 = cl_clause_type clause2
            \<and> (\<exists>other\<in>set (contracts versions_db).
                  ct_id other \<noteq> ct_id (example_contract 1 ''Acme Lease'')
                  \<and> name_contains versions_db ''Acme'' (ct_name other)
                  \<and> clause2 \<in> set (contract_clauses versions_db other))}
   \<and> name_contains versions_db ''Acme'' ''Acmeology Report''
       = sublist (map (fold_case (like_ignores_case versions_db)) ''Acme'')
                 (map (fold_case (like_ignores_case versions_db)) ''Acmeology Report'')
   \<and> detect_version_conflicts default_config versions_db (example_contract 3 '' '')
       = Inl IndexError"
proof -
  have n: "split_ws (ct_name (example_contract 1 ''Acme Lease'')) = ''Acme'' # [''Lease'']"
    by (simp add: example_contract_def split_ws_acme)
  have w: "wildcard_free ''Acme''"
    by (simp add: wildcard_free_def)
  have e: "split_ws (ct_name (example_contract 3 '' '')) = []"
    by (simp add: example_contract_def split_ws_def isspace_def)
  show ?thesis
    using version_pairs_exact
        [of "example_contract 1 ''Acme Lease''" default_config versions_db "''Acme''" "[''Lease'']"]
      version_pairs_exact
        [of "example_contract 3 '' ''" default_config versions_db "''Acme''" "[''Lease'']"]
      n w e
    by simp
qed

subsection \<open>The ambiguity score\<close>

lemma trigger_terms_plain:
  "\<forall>t\<in>set trigger_terms. lower t = t \<and> \<not> list_ex isdigit t \<and> \<not> list_ex sentence_end t"
  by code_simp

lemma lower_append: "lower (a @ b) = lower a @ lower b"
  by (simp add: lower_def)

lemma lower_space: "lower '' '' = '' ''"
  by code_simp

lemma contains_append:
  assumes "contains k s"
  shows "contains k (s @ u)"
proof -
  from assms obtain ps ss where "s = ps @ k @ ss"
    unfolding contains_def sublist_def by blast
  then have "s @ u = ps @ k @ (ss @ u)" by simp
  then show ?thesis
    unfolding contains_def sublist_def by blast
qed

lemma length_filter_mono:
  "(\<And>x. P x \<Longrightarrow> Q x) \<Longrightarrow> length (filter P xs) \<le> length (filter Q xs)"
  by (induction xs) auto

lemma found_terms_append:
  "length (found_terms terms s) \<le> length (found_terms terms (s @ u))"
  unfolding found_terms_def by (rule length_filter_mono) (rule contains_append)

lemma matches_at_digit: "matches_at (isdigit # ps) s \<Longrightarrow> list_ex isdigit s"
  by (cases s) auto

lemma search_digit: "search (isdigit # ps) s \<Longrightarrow> list_ex isdigit s"
  by (induction s) (auto dest: matches_at_digit)

lemma has_numbers_iff: "has_numbers s = list_ex isdigit s"
  unfolding has_numbers_def by (induction s) auto

lemma has_dates_has_numbers: "has_dates s \<Longrightarrow> has_numbers s"
  unfolding has_dates_def Let_def has_numbers_iff by (auto dest: search_digit)

lemma runs_acc_nonempty: "w \<noteq> [] \<Longrightarrow> runs_acc p w u \<noteq> []"
  by (induction u arbitrary: w) auto

lemma runs_acc_append_length:
  "length (runs_acc p w s) \<le> length (runs_acc p w (s @ u))"
proof (induction s arbitrary: w)
  case Nil
  then show ?case
    using runs_acc_nonempty [of w p u] by (cases "runs_acc p w u") auto
next
  case (Cons c s)
  then show ?case by auto
qed

lemma split_on_acc_plain:
  "\<forall>c\<in>set u. \<not> sep c \<Longrightarrow> split_on_acc sep cur u = [cur @ u]"
  by (induction u arbitrary: cur) auto

lemma split_on_acc_append:
  "\<forall>c\<in>set u. \<not> sep c \<Longrightarrow>
     \<exists>ss l. split_on_acc sep cur s = ss @ [l] \<and> split_on_acc sep cur (s @ u) = ss @ [l @ u]"
proof (induction s arbitrary: cur)
  case Nil
  then show ?case by (simp add: split_on_acc_plain)
next
  case (Cons c s)
  show ?case
  proof (cases "sep c")
    case True
    from Cons.IH [OF Cons.prems, of "[]"] obtain ss l where
      "split_on_acc sep [] s = ss @ [l]" "split_on_acc sep [] (s @ u) = ss @ [l @ u]"
      by blast
    with True have "split_on_acc sep cur (c # s) = (cur # ss) @ [l]
        \<and> split_on_acc sep cur ((c # s) @ u) = (cur # ss) @ [l @ u]"
      by simp
    then show ?thesis by blast
  next
    case False
    from Cons.IH [OF Cons.prems, of "cur @ [c]"] False show ?thesis by simp
  qed
qed

lemma avg_sentence_length_append:
  assumes "\<forall>c\<in>set u. \<not> sentence_end c"
  shows "avg_sentence_length s \<le> avg_sentence_length (s @ u)"
proof -
  from split_on_acc_append [OF assms, of "[]" s] obtain ss l where
    a: "split_on_acc sentence_end [] s = ss @ [l]" and
    b: "split_on_acc sentence_end [] (s @ u) = ss @ [l @ u]"
    by blast
  have "length (split_ws l) \<le> length (split_ws (l @ u))"
    unfolding split_ws_def by (rule runs_acc_append_length)
  then have "real (sum_list (map (\<lambda>s. length (split_ws s)) (ss @ [l])))
               \<le> real (sum_list (map (\<lambda>s. length (split_ws s)) (ss @ [l @ u])))"
    by simp
  then show ?thesis
    unfolding avg_sentence_length_def Let_def a b
    by (simp add: divide_right_mono)
qed


lemma if_found_weight:
  "(if xs \<noteq> [] then real (length xs) * w else 0) = real (length xs) * w"
  by simp

lemma if_add_weight: "(if b then s + w else s) = s + (if b then w else (0::real))"
  by simp

lemma ambiguity_score_eq:
  "ambiguity_score clause =
     min (0 + real (length (found_terms AMBIGUOUS_TERMS (lower (cl_text clause)))) * (15 / 100)
          + real (length (found_terms VAGUE_QUANTIFIERS (lower (cl_text clause)))) * (1 / 10)
          + real (length (found_terms COMPLEX_CONDITIONALS (lower (cl_text clause)))) * (12 / 100)
          + (if \<not> has_numbers (lower (cl_text clause)) \<and> \<not> has_dates (lower (cl_text clause))
                \<and> length (lower (cl_text clause)) > 100
                \<and> clause_type_value (cl_clause_type clause)
                    \<in> set [''PAYMENT'', ''TERMINATION'', ''LIABILITY'']
             then 25 / 100 else 0)
          + (if 2 \<le> length (filter (\<lambda>neg. contains ('' '' @ neg @ '' '')
                                           ('' '' @ lower (cl_text clause) @ '' ''))
                             negation_words)
             then 2 / 10 else 0)
          + (if 40 < avg_sentence_length (cl_text clause) then 15 / 100 else 0)) 1"
  unfolding ambiguity_score_def analyze_clause_def Let_def snd_conv
  by (simp only: if_found_weight if_add_weight)

lemma weighted_sum_mono:
  fixes a a' v v' k k' :: nat and l l' n n' s s' :: real
  assumes "a \<le> a'" "v \<le> v'" "k \<le> k'" "l \<le> l'" "n \<le> n'" "s \<le> s'"
  shows "min (0 + real a * (15 / 100) + real v * (1 / 10) + real k * (12 / 100) + l + n + s) 1
       \<le> min (0 + real a' * (15 / 100) + real v' * (1 / 10) + real k' * (12 / 100) + l' + n' + s') 1"
proof -
  have "real a * (15 / 100) \<le> real a' * (15 / 100)"
       "real v * (1 / 10) \<le> real v' * (1 / 10)"
       "real k * (12 / 100) \<le> real k' * (12 / 100)"
    using assms(1-3) by simp_all
  then have "0 + real a * (15 / 100) + real v * (1 / 10) + real k * (12 / 100) + l + n + s
           \<le> 0 + real a' * (15 / 100) + real v' * (1 / 10) + real k' * (12 / 100) + l' + n' + s'"
    using assms(4-6) by linarith
  then show ?thesis
    by (rule min.mono) simp
qed

lemma ambiguity_score_range: "0 \<le> ambiguity_score clause \<and> ambiguity_score clause \<le> 1"
  unfolding ambiguity_score_eq by simp

lemma ambiguity_score_extend:
  assumes "t \<in> set trigger_terms"
  shows "ambiguity_score clause \<le> ambiguity_score (extend_with t clause)"
proof -
  let ?x = "cl_text clause"
  let ?u = "'' '' @ t"
  from assms trigger_terms_plain have
    lt: "lower t = t" and nd: "\<not> list_ex isdigit t" and ns: "\<not> list_ex sentence_end t"
    by blast+
  have tx: "cl_text (extend_with t clause) = ?x @ ?u"
    and ty: "cl_clause_type (extend_with t clause) = cl_clause_type clause"
    by (simp_all add: extend_with_def)
  have low: "lower (?x @ ?u) = lower ?x @ ?u"
    by (simp add: lower_append lower_space lt del: append.simps)
  have se: "\<forall>c\<in>set ?u. \<not> sentence_end c"
    using ns by (auto simp: list_ex_iff sentence_end_def)
  have dg: "list_ex isdigit (lower ?x @ ?u) = list_ex isdigit (lower ?x)"
    using nd by (auto simp: list_ex_iff isdigit_def)
  have l: "(if \<not> has_numbers (lower ?x) \<and> \<not> has_dates (lower ?x) \<and> length (lower ?x) > 100
               \<and> clause_type_value (cl_clause_type clause)
                   \<in> set [''PAYMENT'', ''TERMINATION'', ''LIABILITY'']
            then 25 / 100 else (0::real))
         \<le> (if \<not> has_numbers (lower ?x @ ?u) \<and> \<not> has_dates (lower ?x @ ?u)
               \<and> length (lower ?x @ ?u) > 100
               \<and> clause_type_value (cl_clause_type clause)
                   \<in> set [''PAYMENT'', ''TERMINATION'', ''LIABILITY'']
            then 25 / 100 else 0)"
    using has_dates_has_numbers [of "lower ?x @ ?u"] dg
    by (auto simp: has_numbers_iff)
  have "length (filter (\<lambda>neg. contains ('' '' @ neg @ '' '') ('' '' @ lower ?x @ '' ''))
                  negation_words)
        \<le> length (filter (\<lambda>neg. contains ('' '' @ neg @ '' '') (('' '' @ lower ?x @ '' '') @ t @ '' ''))
                  negation_words)"
    by (rule length_filter_mono) (rule contains_append)
  then have n: "(if 2 \<le> length (filter (\<lambda>neg. contains ('' '' @ neg @ '' '')
                                           ('' '' @ lower ?x @ '' '')) negation_words)
                 then 2 / 10 else (0::real))
              \<le> (if 2 \<le> length (filter (\<lambda>neg. contains ('' '' @ neg @ '' '')
                                           ('' '' @ (lower ?x @ ?u) @ '' '')) negation_words)
                 then 2 / 10 else 0)"
    by auto
  have "avg_sentence_length ?x \<le> avg_sentence_length (?x @ ?u)"
    using se by (rule avg_sentence_length_append)
  then have s: "(if 40 < avg_sentence_length ?x then 15 / 100 else (0::real))
              \<le> (if 40 < avg_sentence_length (?x @ ?u) then 15 / 100 else 0)"
    by auto
  show ?thesis
    unfolding ambiguity_score_eq tx ty low
    by (rule weighted_sum_mono) (rule found_terms_append found_terms_append found_terms_append l n s)+
qed


lemma ambiguity_score_extend_all:
  "set ts \<subseteq> set trigger_terms \<Longrightarrow> ambiguity_score clause \<le> ambiguity_score (fold extend_with ts clause)"
proof (induction ts arbitrary: clause)
  case Nil
  then show ?case by simp
next
  case (Cons t ts)
  have "ambiguity_score clause \<le> ambiguity_score (extend_with t clause)"
    using Cons.prems by (simp add: ambiguity_score_extend)
  also have "\<dots> \<le> ambiguity_score (fold extend_with ts (extend_with t clause))"
    using Cons.prems by (simp add: Cons.IH)
  finally show ?case by simp
qed

text \<open>
  Claim C5. The ambiguity score of \<open>analyze_clause\<close> lies in \<open>[0, 1]\<close>, and it does not
  decrease when a trigger term (an ambiguous term, a vague quantifier or a complex
  conditional) is added to the clause's text, nor when several are added one after the
  other. Adding a term means appending it to the text as one more word.
\<close>

theorem ambiguity_score_monotone:
  "(0 \<le> ambiguity_score clause \<and> ambiguity_score clause \<le> 1)
   \<and> (t \<in> set trigger_terms
        \<longrightarrow> ambiguity_score clause \<le> ambiguity_score (extend_with t clause))
   \<and> (set ts \<subseteq> set trigger_terms
        \<longrightarrow> ambiguity_score clause \<le> ambiguity_score (fold extend_with ts clause))"
  using ambiguity_score_range ambiguity_score_extend ambiguity_score_extend_all
  by blast

lemma example_scores:
  "ambiguity_score (example_clause 1 1 ''The party shall pay.'' OBLIGATION NoVector) = 0
   \<and> ambiguity_score
        (extend_with ''reasonable''
           (example_clause 1 1 ''The party shall pay.'' OBLIGATION NoVector)) = 15 / 100
   \<and> ambiguity_score
        (fold extend_with [''reasonable'', ''some'', ''unless'']
           (example_clause 1 1 ''The party shall pay.'' OBLIGATION NoVector)) = 37 / 100"
  by code_simp

theorem ambiguity_score_monotone_witness:
  "ambiguity_score (example_clause 1 1 ''The party shall pay.'' OBLIGATION NoVector) = 0
   \<and> ambiguity_score
        (extend_with ''reasonable''
           (example_clause 1 1 ''The party shall pay.'' OBLIGATION NoVector)) = 15 / 100
   \<and> ambiguity_score
        (fold extend_with [''reasonable'', ''some'', ''unless'']
           (example_clause 1 1 ''The party shall pay.'' OBLIGATION NoVector)) = 37 / 100
   \<and> ambiguity_score (example_clause 1 1 ''The party shall pay.'' OBLIGATION NoVector)
        \<le> ambiguity_score
            (extend_with ''reasonable''
               (example_clause 1 1 ''The party shall pay.'' OBLIGATION NoVector))
   \<and> ambiguity_score (example_clause 1 1 ''The party shall pay.'' OBLIGATION NoVector)
        \<le> ambiguity_score
            (fold extend_with [''reasonable'', ''some'', ''unless'']
               (example_clause 1 1 ''The party shall pay.'' OBLIGATION NoVector))"
proof -
  have a: "''reasonable'' \<in> set trigger_terms"
    by (simp add: trigger_terms_def AMBIGUOUS_TERMS_def)
  have b: "set [''reasonable'', ''some'', ''unless''] \<subseteq> set trigger_terms"
    by (simp add: trigger_terms_def AMBIGUOUS_TERMS_def VAGUE_QUANTIFIERS_def
        COMPLEX_CONDITIONALS_def)
  show ?thesis
    using ambiguity_score_monotone
        [of "example_clause 1 1 ''The party shall pay.'' OBLIGATION NoVector"
            "''reasonable''" "[''reasonable'', ''some'', ''unless'']"]
      a b example_scores
    by blast
qed

text \<open>
  The word boundary matters: a term glued onto the last word of the text can join a
  negation word and lower the score.
\<close>

lemma glued_term_lowers_score: "ambiguity_score (example_clause 1 1 ''no not'' OBLIGATION NoVector) = 2/10
  \<and> ambiguity_score (example_clause 1 1 ''no notmay'' OBLIGATION NoVector) = 15/100"
  by code_simp

end
